theory Spec2Isabelle
  imports Complex_Main
begin

section \<open>JavaScript values used by the orchestrator\<close>

text \<open>
  A JavaScript number is a finite value, one of the two infinities, or NaN. Finite values
  are exact rationals here (the two zeros are one value, rounding is left out): the code
  under study only tests numbers for truthiness and for equality with \<open>0\<close> and
  \<open>Infinity\<close>, and multiplies them in \<open>seekTo\<close>.
\<close>

datatype number = Fin rat | Infinity | NegInfinity | NaN

text \<open>Truthiness of a number: \<open>0\<close> and \<open>NaN\<close> are falsy, everything else is truthy.\<close>

fun truthy_number :: "number \<Rightarrow> bool" where
  "truthy_number (Fin r) = (r \<noteq> 0)"
| "truthy_number Infinity = True"
| "truthy_number NegInfinity = True"
| "truthy_number NaN = False"

text \<open>The product of two numbers, with the special cases of the infinities and NaN.\<close>

fun times_number :: "number \<Rightarrow> number \<Rightarrow> number" where
  "times_number NaN _ = NaN"
| "times_number _ NaN = NaN"
| "times_number (Fin a) (Fin b) = Fin (a * b)"
| "times_number (Fin a) Infinity = (if a = 0 then NaN else if 0 < a then Infinity else NegInfinity)"
| "times_number (Fin a) NegInfinity = (if a = 0 then NaN else if 0 < a then NegInfinity else Infinity)"
| "times_number Infinity (Fin b) = (if b = 0 then NaN else if 0 < b then Infinity else NegInfinity)"
| "times_number NegInfinity (Fin b) = (if b = 0 then NaN else if 0 < b then NegInfinity else Infinity)"
| "times_number Infinity Infinity = Infinity"
| "times_number NegInfinity NegInfinity = Infinity"
| "times_number Infinity NegInfinity = NegInfinity"
| "times_number NegInfinity Infinity = NegInfinity"

text \<open>Plugins are objects compared by identity; a plugin is its identity here.\<close>

type_synonym plugin = nat

text \<open>\<open>Array<Float32Array | number[]>\<close>: one list of samples per channel.\<close>

type_synonym peaks = "rat list list"

text \<open>The bytes of a fetched blob.\<close>

type_synonym blob = "nat list"

text \<open>The two properties of an \<open>HTMLMediaElement\<close> that the constructor reads.\<close>

record media_element =
  currentSrc :: string
  src :: string

text \<open>
  The values an option can hold. \<open>JUndefined\<close> is \<open>undefined\<close>; \<open>JObject\<close> stands for
  any other object (a DOM element, a gradient, a function, a \<open>RequestInit\<close>).
\<close>

datatype jsval =
    JUndefined
  | JNumber number
  | JBoolean bool
  | JString string
  | JPeaks peaks
  | JMedia media_element
  | JPlugins "plugin list"
  | JObject nat

fun truthy :: "jsval \<Rightarrow> bool" where
  "truthy JUndefined = False"
| "truthy (JNumber n) = truthy_number n"
| "truthy (JBoolean b) = b"
| "truthy (JString s) = (s \<noteq> [])"
| "truthy (JPeaks p) = True"
| "truthy (JMedia m) = True"
| "truthy (JPlugins ps) = True"
| "truthy (JObject x) = True"

section \<open>Options\<close>

text \<open>The keys of \<open>WaveSurferOptions\<close>.\<close>

datatype okey =
    Container | Height | WaveColor | ProgressColor | CursorColor | CursorWidth
  | BarWidth | BarGap | BarRadius | BarHeight | BarAlign | MinPxPerSec | FillParent
  | Url | Peaks | Duration | Media | Autoplay | Interact | HideScrollbar | AudioRate
  | AutoScroll | AutoCenter | SampleRate | SplitChannels | Normalize | Plugins
  | RenderFunction | FetchParams

text \<open>
  An options object is a map from its own keys to their values. A key can be present with
  the value \<open>undefined\<close>, which \<open>Object.assign\<close> copies like any other value.
\<close>

type_synonym options = "okey \<rightharpoonup> jsval"

text \<open>Reading a property: an absent key reads as \<open>undefined\<close>.\<close>

definition opt :: "options \<Rightarrow> okey \<Rightarrow> jsval" where
  "opt opts k = (case opts k of Some v \<Rightarrow> v | None \<Rightarrow> JUndefined)"

definition defaultOptions :: options where
  "defaultOptions =
     [WaveColor \<mapsto> JString ''#999'',
      ProgressColor \<mapsto> JString ''#555'',
      CursorWidth \<mapsto> JNumber (Fin 1),
      MinPxPerSec \<mapsto> JNumber (Fin 0),
      FillParent \<mapsto> JBoolean True,
      Interact \<mapsto> JBoolean True,
      AutoScroll \<mapsto> JBoolean True,
      AutoCenter \<mapsto> JBoolean True,
      SampleRate \<mapsto> JNumber (Fin 8000)]"

text \<open>
  Typed reads of the options the constructor hands to \<open>load\<close>. The TypeScript types
  (\<open>url?: string\<close>, \<open>peaks?: Array<...>\<close>, \<open>duration?: number\<close>,
  \<open>media?: HTMLMediaElement\<close>) exclude every other shape of value.
\<close>

definition opt_url :: "options \<Rightarrow> string option" where
  "opt_url opts = (case opt opts Url of JString u \<Rightarrow> Some u | _ \<Rightarrow> None)"

definition opt_peaks :: "options \<Rightarrow> peaks option" where
  "opt_peaks opts = (case opt opts Peaks of JPeaks p \<Rightarrow> Some p | _ \<Rightarrow> None)"

definition opt_duration :: "options \<Rightarrow> number option" where
  "opt_duration opts =
      (case opt opts Duration of JNumber n \<Rightarrow> Some n | _ \<Rightarrow> None)"

text \<open>\<open>this.options.media?.currentSrc\<close> and \<open>this.options.media?.src\<close>.\<close>

definition opt_media_currentSrc :: "options \<Rightarrow> string option" where
  "opt_media_currentSrc opts =
      (case opt opts Media of JMedia m \<Rightarrow> Some (currentSrc m) | _ \<Rightarrow> None)"

definition opt_media_src :: "options \<Rightarrow> string option" where
  "opt_media_src opts =
      (case opt opts Media of JMedia m \<Rightarrow> Some (src m) | _ \<Rightarrow> None)"

text \<open>\<open>a || b\<close> on values of type \<open>string | undefined\<close>: the empty string is falsy.\<close>

definition or_string :: "string option \<Rightarrow> string option \<Rightarrow> string option" where
  "or_string a b =
      (case a of Some u \<Rightarrow> if u \<noteq> [] then Some u else b | None \<Rightarrow> b)"

section \<open>Events, collaborators and the orchestrator's state\<close>

text \<open>
  The public events of \<open>WaveSurferEvents\<close> with their payloads. \<open>decode\<close> and
  \<open>ready\<close> carry the field \<open>this.duration\<close>, of type \<open>number | null\<close>: \<open>None\<close> is
  \<open>null\<close>.
\<close>

datatype event =
    Load string
  | Decode "number option"
  | Ready "number option"
  | Redraw
  | Play
  | Pause
  | Finish
  | Timeupdate number
  | Audioprocess number
  | Seeking number
  | Interaction number
  | Click number
  | Drag number
  | Scroll number number
  | Zoom number
  | Destroy

datatype media_event = MTimeupdate | MPlay | MPause | MEnded | MSeeking

datatype renderer_event = RClick | RScroll | RRender | RDrag

text \<open>
  A subscription names the listener it releases: one on a media event, one on a renderer
  event, the one on the timer's tick, or the one-shot listener on a plugin's destroy signal.
\<close>

datatype subscription =
    OnMedia media_event
  | OnRenderer renderer_event
  | OnTimerTick
  | OncePluginDestroy plugin

text \<open>An \<open>AudioBuffer\<close>, as far as the orchestrator reads it.\<close>

record audiobuffer =
  buffer_duration :: number
  channels :: peaks

datatype error = NothingLoaded | FetchFailure | DecodeFailure

text \<open>
  Everything the orchestrator does to the outside: an event it emits, or a call to a
  collaborator (player, fetcher, decoder, renderer, timer, plugin, the scheduler).
\<close>

datatype action =
    Emit event
  | PlayerPause
  | PlayerSetSrc string "blob option"
  | PlayerSetTime number
  | PlayerSetPlaybackRate number
  | PlayerOnceLoadedmetadata
  | PlayerDestroy
  | FetchBlob string jsval
  | CreateBuffer peaks number
  | DecoderDecode blob jsval
  | RendererSetOptions options
  | RendererRender audiobuffer
  | RendererRenderProgress number
  | RendererZoom number
  | RendererDestroy
  | TimerDestroy
  | PluginInit plugin
  | PluginDestroy plugin
  | Unsubscribe subscription
  | ClearTimeout
  | SetTimeout nat

text \<open>
  What a synchronous observer sees of the orchestrator's fields at the moment of an
  action: \<open>getActivePlugins()\<close>, \<open>getDecodedData()\<close> and the field \<open>duration\<close>.
\<close>

record snapshot =
  seen_plugins :: "plugin list"
  seen_decodedData :: "audiobuffer option"
  seen_duration :: "number option"

text \<open>
  Modelled from the spec: the media player (\<open>Player\<close>, the superclass, whose code is not
  part of the sources at hand). It exposes \<open>isPlaying()\<close>, \<open>getDuration()\<close>,
  \<open>getCurrentTime()\<close> and a playback rate.
\<close>

record player =
  playing :: bool
  media_duration :: number
  currentTime :: number
  playbackRate :: number

text \<open>
  The fields of \<open>WaveSurfer\<close>. \<open>listeners\<close> are the listeners currently attached to the
  collaborators' event buses; \<open>subscriptions\<close> is the array of their release handles;
  \<open>debounce\<close> is the pending seek commit of the drag handler (delay in ms and ratio);
  \<open>trace\<close> is the sequence of actions so far, each with the snapshot at its moment.
\<close>

record wavesurfer =
  options :: options
  plugins :: "plugin list"
  decodedData :: "audiobuffer option"
  duration :: "number option"
  subscriptions :: "subscription list"
  listeners :: "subscription list"
  debounce :: "(nat \<times> number) option"
  player :: player
  trace :: "(action \<times> snapshot) list"

definition snapshot_of :: "wavesurfer \<Rightarrow> snapshot" where
  "snapshot_of s =
     \<lparr>seen_plugins = plugins s, seen_decodedData = decodedData s, seen_duration = duration s\<rparr>"

text \<open>Performing an action appends it to the trace with the current snapshot.\<close>

definition perform :: "action \<Rightarrow> wavesurfer \<Rightarrow> wavesurfer" where
  "perform a s = s\<lparr>trace := trace s @ [(a, snapshot_of s)]\<rparr>"

text \<open>
  \<open>this.emit(event, ...)\<close>. Listeners of the public events are observers: they see the
  snapshot and do not call back into the orchestrator.
\<close>

definition emit :: "event \<Rightarrow> wavesurfer \<Rightarrow> wavesurfer" where
  "emit ev s = perform (Emit ev) s"

text \<open>The actions of a trace, and the public events among them, in order.\<close>

definition actions :: "wavesurfer \<Rightarrow> action list" where
  "actions s = map fst (trace s)"

fun events_of :: "action list \<Rightarrow> event list" where
  "events_of [] = []"
| "events_of (Emit ev # as) = ev # events_of as"
| "events_of (_ # as) = events_of as"

definition events :: "wavesurfer \<Rightarrow> event list" where
  "events s = events_of (actions s)"

subsection \<open>The player's operations\<close>

text \<open>Modelled from the spec: \<open>Player.isPlaying\<close>.\<close>

definition isPlaying :: "wavesurfer \<Rightarrow> bool" where
  "isPlaying s = playing (player s)"

text \<open>Modelled from the spec: \<open>Player.pause\<close> stops playback.\<close>

definition pause :: "wavesurfer \<Rightarrow> wavesurfer" where
  "pause s = (let s1 = perform PlayerPause s in s1\<lparr>player := (player s1)\<lparr>playing := False\<rparr>\<rparr>)"

text \<open>Modelled from the spec: \<open>Player.getCurrentTime\<close>.\<close>

definition getCurrentTime :: "wavesurfer \<Rightarrow> number" where
  "getCurrentTime s = currentTime (player s)"

text \<open>Modelled from the spec: \<open>Player.setTime\<close> sets the media position.\<close>

definition setTime :: "number \<Rightarrow> wavesurfer \<Rightarrow> wavesurfer" where
  "setTime t s = (let s1 = perform (PlayerSetTime t) s in s1\<lparr>player := (player s1)\<lparr>currentTime := t\<rparr>\<rparr>)"


text \<open>
  Modelled from the spec: \<open>Player.setSrc\<close> binds the source; \<open>reported\<close> is the duration
  the player reports once the source is bound (NaN while it is unknown).
\<close>

definition setSrc :: "number \<Rightarrow> string \<Rightarrow> blob option \<Rightarrow> wavesurfer \<Rightarrow> wavesurfer" where
  "setSrc reported url b s =
     (let s1 = perform (PlayerSetSrc url b) s in s1\<lparr>player := (player s1)\<lparr>media_duration := reported\<rparr>\<rparr>)"

subsection \<open>Accessors\<close>

text \<open>\<open>getDuration\<close>: the field when it is not null, the player's duration otherwise.\<close>

definition getDuration :: "wavesurfer \<Rightarrow> number" where
  "getDuration s =
      (case duration s of Some d \<Rightarrow> d | None \<Rightarrow> media_duration (player s))"

definition getDecodedData :: "wavesurfer \<Rightarrow> audiobuffer option" where
  "getDecodedData s = decodedData s"

definition getActivePlugins :: "wavesurfer \<Rightarrow> plugin list" where
  "getActivePlugins s = plugins s"

section \<open>The operations of \<open>WaveSurfer\<close>\<close>

subsection \<open>Plugins\<close>

text \<open>
  \<open>registerPlugin\<close>: initialise the plugin with the orchestrator as host, push it, and
  subscribe once to its destroy signal. The handle returned by \<open>plugin.once\<close> is pushed to
  \<open>subscriptions\<close>; the one-shot listener itself is attached to the plugin.
\<close>

definition registerPlugin :: "plugin \<Rightarrow> wavesurfer \<Rightarrow> plugin \<times> wavesurfer" where
  "registerPlugin p s =
     (let s1 = perform (PluginInit p) s;
          s2 = s1\<lparr>plugins := plugins s1 @ [p]\<rparr>;
          s3 = s2\<lparr>subscriptions := subscriptions s2 @ [OncePluginDestroy p],
                 listeners := listeners s2 @ [OncePluginDestroy p]\<rparr>
      in (p, s3))"

text \<open>
  The body of the listener registered above:
  \<open>this.plugins = this.plugins.filter((p) => p !== plugin)\<close>.
\<close>

definition unregister :: "plugin \<Rightarrow> wavesurfer \<Rightarrow> wavesurfer" where
  "unregister p s = s\<lparr>plugins := filter (\<lambda>q. q \<noteq> p) (plugins s)\<rparr>"

text \<open>
  Modelled from the spec: the one-shot destroy signal of a plugin (\<open>once\<close> of the event
  bus, whose code is not part of the sources at hand). When the signal fires, the
  listeners attached for it run and are released; with none attached nothing runs.
\<close>

definition plugin_destroy_signal :: "plugin \<Rightarrow> wavesurfer \<Rightarrow> wavesurfer" where
  "plugin_destroy_signal p s =
     (if OncePluginDestroy p \<in> set (listeners s)
      then unregister p (s\<lparr>listeners := filter (\<lambda>l. l \<noteq> OncePluginDestroy p) (listeners s)\<rparr>)
      else s)"

text \<open>
  \<open>initPlugins\<close>: nothing when \<open>options.plugins\<close> is absent or empty, else each plugin
  is registered in order.
\<close>

definition initPlugins :: "wavesurfer \<Rightarrow> wavesurfer" where
  "initPlugins s =
     (case opt (options s) Plugins of
        JPlugins ps \<Rightarrow> if ps = [] then s else fold (\<lambda>p t. snd (registerPlugin p t)) ps s
      | _ \<Rightarrow> s)"

subsection \<open>Event wiring\<close>

text \<open>
  \<open>this.subscriptions.push(... .on(event, listener))\<close>. Modelled from the spec: \<open>on\<close> of
  the event bus (not part of the sources at hand) attaches the listener and returns its
  release handle.
\<close>

definition subscribe :: "subscription list \<Rightarrow> wavesurfer \<Rightarrow> wavesurfer" where
  "subscribe subs s =
     s\<lparr>subscriptions := subscriptions s @ subs, listeners := listeners s @ subs\<rparr>"

definition initPlayerEvents :: "wavesurfer \<Rightarrow> wavesurfer" where
  "initPlayerEvents s =
     subscribe [OnMedia MTimeupdate, OnMedia MPlay, OnMedia MPause, OnMedia MEnded, OnMedia MSeeking] s"

definition initRendererEvents :: "wavesurfer \<Rightarrow> wavesurfer" where
  "initRendererEvents s =
     subscribe [OnRenderer RDrag]
       (subscribe [OnRenderer RClick, OnRenderer RScroll, OnRenderer RRender] s)"

definition initTimerEvents :: "wavesurfer \<Rightarrow> wavesurfer" where
  "initTimerEvents s = subscribe [OnTimerTick] s"

text \<open>
  Modelled from the spec: calling a release handle detaches its listener (the event bus is
  not part of the sources at hand).
\<close>

definition unsubscribe :: "subscription \<Rightarrow> wavesurfer \<Rightarrow> wavesurfer" where
  "unsubscribe u s =
     (let s1 = perform (Unsubscribe u) s in s1\<lparr>listeners := remove1 u (listeners s1)\<rparr>)"

subsection \<open>Options and interaction\<close>


definition toggleInteraction :: "bool \<Rightarrow> wavesurfer \<Rightarrow> wavesurfer" where
  "toggleInteraction isInteractive s = s\<lparr>options := (options s)(Interact \<mapsto> JBoolean isInteractive)\<rparr>"

definition seekTo :: "number \<Rightarrow> wavesurfer \<Rightarrow> wavesurfer" where
  "seekTo progress s = (let time = times_number (getDuration s) progress in setTime time s)"

text \<open>The listener on the renderer's \<open>click\<close>.\<close>

definition on_click :: "number \<Rightarrow> wavesurfer \<Rightarrow> wavesurfer" where
  "on_click relativeX s =
     (if truthy (opt (options s) Interact)
      then (let s1 = seekTo relativeX s;
                s2 = emit (Interaction (getCurrentTime s1)) s1
            in emit (Click relativeX) s2)
      else s)"

text \<open>
  The listener on the renderer's \<open>drag\<close>: update the visual position, replace the pending
  seek commit (delay 0 when playing, 200 otherwise), emit \<open>interaction\<close> and \<open>drag\<close>.
\<close>

definition on_drag :: "number \<Rightarrow> wavesurfer \<Rightarrow> wavesurfer" where
  "on_drag relativeX s =
     (if \<not> truthy (opt (options s) Interact) then s
      else (let s1 = perform (RendererRenderProgress relativeX) s;
                s2 = (perform ClearTimeout s1)\<lparr>debounce := None\<rparr>;
                delay = (if isPlaying s2 then 0 else 200);
                s3 = (perform (SetTimeout delay) s2)\<lparr>debounce := Some (delay, relativeX)\<rparr>;
                s4 = emit (Interaction (times_number relativeX (getDuration s3))) s3
            in emit (Drag relativeX) s4))"

text \<open>The scheduled seek commit, when its timeout fires.\<close>

definition debounce_fire :: "wavesurfer \<Rightarrow> wavesurfer" where
  "debounce_fire s =
     (case debounce s of
        None \<Rightarrow> s
      | Some (delay, relativeX) \<Rightarrow> seekTo relativeX (s\<lparr>debounce := None\<rparr>))"

text \<open>
  The renderer emitting \<open>click\<close> or \<open>drag\<close>: the orchestrator's listener runs while it is
  attached.
\<close>

definition renderer_click :: "number \<Rightarrow> wavesurfer \<Rightarrow> wavesurfer" where
  "renderer_click relativeX s =
     (if OnRenderer RClick \<in> set (listeners s) then on_click relativeX s else s)"

definition renderer_drag :: "number \<Rightarrow> wavesurfer \<Rightarrow> wavesurfer" where
  "renderer_drag relativeX s =
     (if OnRenderer RDrag \<in> set (listeners s) then on_drag relativeX s else s)"

text \<open>The listener on the renderer's \<open>render\<close> (lines 222 to 224): emit \<open>redraw\<close>.\<close>

definition on_render :: "wavesurfer \<Rightarrow> wavesurfer" where
  "on_render s = emit Redraw s"

text \<open>The renderer emitting \<open>render\<close>: the orchestrator's listener runs while it is attached.\<close>

definition renderer_rendered :: "wavesurfer \<Rightarrow> wavesurfer" where
  "renderer_rendered s = (if OnRenderer RRender \<in> set (listeners s) then on_render s else s)"

text \<open>The renderer emitting \<open>render\<close> a number of times in a row.\<close>

fun renderer_rendered_times :: "nat \<Rightarrow> wavesurfer \<Rightarrow> wavesurfer" where
  "renderer_rendered_times 0 s = s"
| "renderer_rendered_times (Suc n) s = renderer_rendered_times n (renderer_rendered s)"

subsection \<open>Zoom\<close>

text \<open>
  What the renderer does during \<open>renderer.zoom(minPxPerSec)\<close>, as far as the orchestrator
  sees it (the renderer's code is not part of the sources at hand): how many times it
  emits \<open>render\<close> while it draws again, and what it writes to the options object, which is
  the orchestrator's own (\<open>new Renderer(this.options)\<close> in the constructor,
  \<open>this.renderer.setOptions(this.options)\<close> in \<open>setOptions\<close>).
\<close>

record zoom_env =
  zoom_renders :: nat
  zoom_writes :: "options \<Rightarrow> options"

text \<open>
  Modelled from the spec: \<open>Renderer.zoom(pxPerSec)\<close> takes the factor; what it writes to
  the shared options and the \<open>render\<close> signals of its drawing are those of \<open>rz\<close>.
\<close>

definition renderer_zoom :: "zoom_env \<Rightarrow> number \<Rightarrow> wavesurfer \<Rightarrow> wavesurfer" where
  "renderer_zoom rz minPxPerSec s =
     (let s1 = perform (RendererZoom minPxPerSec) s;
          s2 = s1\<lparr>options := zoom_writes rz (options s1)\<rparr>
      in renderer_rendered_times (zoom_renders rz) s2)"

text \<open>\<open>zoom\<close> throws \<open>Error('No audio loaded')\<close> when \<open>decodedData\<close> is null.\<close>

definition zoom :: "zoom_env \<Rightarrow> number \<Rightarrow> wavesurfer \<Rightarrow> error + wavesurfer" where
  "zoom rz minPxPerSec s =
     (case decodedData s of
        None \<Rightarrow> Inl NothingLoaded
      | Some b \<Rightarrow> Inr (emit (Zoom minPxPerSec) (renderer_zoom rz minPxPerSec s)))"

subsection \<open>Load\<close>

text \<open>
  What the collaborators answer during one call of \<open>load\<close>: the outcome of
  \<open>Fetcher.fetchBlob(url, fetchParams)\<close>, the duration the player reports once the source
  is bound, the duration it reports when \<open>loadedmetadata\<close> fires (\<open>None\<close>: the signal
  never fires), the outcome of \<open>Decoder.decode(arrayBuffer, sampleRate)\<close>, and how many
  times the renderer emits \<open>render\<close> during \<open>renderer.render(decodedData)\<close>.
\<close>

record load_env =
  fetchBlob :: "string \<Rightarrow> jsval \<Rightarrow> error + blob"
  reported_after_setSrc :: number
  loadedmetadata :: "number option"
  decode :: "blob \<Rightarrow> jsval \<Rightarrow> error + audiobuffer"
  load_renders :: nat

text \<open>
  Modelled from the spec: \<open>Decoder.createBuffer(channelData, duration)\<close>, synchronous and
  non-failing, wraps the peaks with the given duration (the decoder's code is not part
  of the sources at hand).
\<close>

definition createBuffer :: "peaks \<Rightarrow> number \<Rightarrow> audiobuffer" where
  "createBuffer ch d = \<lparr>buffer_duration = d, channels = ch\<rparr>"

text \<open>
  How the promise returned by \<open>load\<close> ends: it resolves, it rejects with an error, or it
  stays pending for ever (the metadata signal never comes).
\<close>

datatype load_outcome = Resolved | Rejected error | Suspended

text \<open>
  Lines 328 to 335: emit \<open>decode\<close>, render when there is decoded data, emit \<open>ready\<close>.
  While the renderer renders it emits \<open>render\<close>, and the listener of lines 222 to 224
  emits \<open>redraw\<close> each time.
\<close>

definition load_finish :: "load_env \<Rightarrow> wavesurfer \<Rightarrow> load_outcome \<times> wavesurfer" where
  "load_finish env s =
     (let s1 = emit (Decode (duration s)) s;
          s2 = (case decodedData s1 of
                  Some b \<Rightarrow> renderer_rendered_times (load_renders env) (perform (RendererRender b) s1)
                | None \<Rightarrow> s1);
          s3 = emit (Ready (duration s2)) s2
      in (Resolved, s3))"

text \<open>
  Lines 315 to 326: build the buffer from the peaks, or decode the blob and fall back to
  the decoded duration when the field is \<open>0\<close> or \<open>Infinity\<close>. \<open>d\<close> is the value just
  assigned to the field; \<open>blob.arrayBuffer()\<close> yields the blob's bytes.
\<close>

definition load_decode ::
  "load_env \<Rightarrow> peaks option \<Rightarrow> blob option \<Rightarrow> number \<Rightarrow> wavesurfer \<Rightarrow> load_outcome \<times> wavesurfer" where
  "load_decode env channelData b d s =
     (case channelData of
        Some ch \<Rightarrow>
          load_finish env
            ((perform (CreateBuffer ch d) s)\<lparr>decodedData := Some (createBuffer ch d)\<rparr>)
      | None \<Rightarrow>
          (case b of
             None \<Rightarrow> load_finish env s
           | Some bytes \<Rightarrow>
               (let s1 = perform (DecoderDecode bytes (opt (options s) SampleRate)) s
                in case decode env bytes (opt (options s) SampleRate) of
                     Inl e \<Rightarrow> (Rejected e, s1)
                   | Inr buf \<Rightarrow>
                       (let s2 = s1\<lparr>decodedData := Some buf\<rparr>;
                            s3 = (if duration s2 = Some (Fin 0) \<or> duration s2 = Some Infinity
                                  then s2\<lparr>duration := Some (buffer_duration buf)\<rparr>
                                  else s2)
                        in load_finish env s3))))"

text \<open>
  Lines 309 to 313, the operands after the first of the \<open>||\<close> chain:
  \<open>this.getDuration() || (await new Promise(...)) || 0\<close>. The result is the value
  assigned to the field, or \<open>None\<close> when the promise never resolves.
\<close>

definition reported_duration :: "load_env \<Rightarrow> wavesurfer \<Rightarrow> number option \<times> wavesurfer" where
  "reported_duration env s =
     (if truthy_number (getDuration s)
      then (Some (getDuration s), s\<lparr>duration := Some (getDuration s)\<rparr>)
      else (let s1 = perform PlayerOnceLoadedmetadata s
            in case loadedmetadata env of
                 None \<Rightarrow> (None, s1)
               | Some md \<Rightarrow>
                   (let s2 = s1\<lparr>player := (player s1)\<lparr>media_duration := md\<rparr>\<rparr>;
                        d = (if truthy_number (getDuration s2) then getDuration s2 else Fin 0)
                    in (Some d, s2\<lparr>duration := Some d\<rparr>))))"

text \<open>Lines 307 to 313: \<open>this.duration = duration || ...\<close>.\<close>

definition load_duration ::
  "load_env \<Rightarrow> number option \<Rightarrow> wavesurfer \<Rightarrow> number option \<times> wavesurfer" where
  "load_duration env dur s =
     (case dur of
        Some d \<Rightarrow>
          if truthy_number d then (Some d, s\<lparr>duration := Some d\<rparr>) else reported_duration env s
      | None \<Rightarrow> reported_duration env s)"

text \<open>Lines 304 to 313: bind the source and resolve the duration; then the decode step.\<close>

definition load_source ::
  "load_env \<Rightarrow> string \<Rightarrow> peaks option \<Rightarrow> number option \<Rightarrow> blob option \<Rightarrow> wavesurfer
     \<Rightarrow> load_outcome \<times> wavesurfer" where
  "load_source env url channelData dur b s =
     (let s1 = setSrc (reported_after_setSrc env) url b s
      in case load_duration env dur s1 of
           (None, s2) \<Rightarrow> (Suspended, s2)
         | (Some d, s2) \<Rightarrow> load_decode env channelData b d s2)"

text \<open>Lines 293 to 298: pause when playing, reset the two fields, emit \<open>load\<close>.\<close>

definition load_begin :: "string \<Rightarrow> wavesurfer \<Rightarrow> wavesurfer" where
  "load_begin url s =
     (let s1 = (if isPlaying s then pause s else s);
          s2 = s1\<lparr>decodedData := None, duration := None\<rparr>
      in emit (Load url) s2)"

text \<open>
  \<open>load(url, channelData?, duration?)\<close>. An array of peaks is truthy even when empty, so
  \<open>channelData\<close> is falsy exactly when it is absent. One call is followed from its start
  to the end of its promise; what other calls do between its suspension points is not
  part of it.
\<close>

definition load ::
  "load_env \<Rightarrow> string \<Rightarrow> peaks option \<Rightarrow> number option \<Rightarrow> wavesurfer \<Rightarrow> load_outcome \<times> wavesurfer" where
  "load env url channelData dur s =
     (let s3 = load_begin url s
      in case channelData of
           Some ch \<Rightarrow> load_source env url channelData dur None s3
         | None \<Rightarrow>
             (let s4 = perform (FetchBlob url (opt (options s3) FetchParams)) s3
              in case fetchBlob env url (opt (options s3) FetchParams) of
                   Inl e \<Rightarrow> (Rejected e, s4)
                 | Inr bytes \<Rightarrow> load_source env url channelData dur (Some bytes) s4))"

text \<open>\<open>empty\<close>: load a tiny silent audio.\<close>

definition empty :: "load_env \<Rightarrow> wavesurfer \<Rightarrow> load_outcome \<times> wavesurfer" where
  "empty env s = load env [] (Some [[0]]) (Some (Fin (1 / 1000))) s"

subsection \<open>Construction\<close>

text \<open>
  \<open>const url = this.options.url || this.options.media?.currentSrc || this.options.media?.src\<close>
  together with the test \<open>if (url)\<close>: the first non-empty string of the three, if any.
\<close>

definition source_url :: "options \<Rightarrow> string option" where
  "source_url opts =
     (case or_string (opt_url opts) (or_string (opt_media_currentSrc opts) (opt_media_src opts)) of
        Some u \<Rightarrow> if u \<noteq> [] then Some u else None
      | None \<Rightarrow> None)"

text \<open>
  The state the constructor has built before it looks for a url: the options merged over
  the defaults, the listeners wired, the plugins registered. \<open>pl\<close> is the player that the
  superclass constructor has set up.
\<close>

definition wired :: "player \<Rightarrow> options \<Rightarrow> wavesurfer" where
  "wired pl opts =
     initPlugins (initTimerEvents (initRendererEvents (initPlayerEvents
       \<lparr>options = defaultOptions ++ opts, plugins = [], decodedData = None, duration = None,
        subscriptions = [], listeners = [], debounce = None, player = pl, trace = []\<rparr>)))"

text \<open>
  The constructor. The promise of the \<open>load\<close> it starts is dropped; the state is the one
  that load leaves once it has run as far as it gets.
\<close>

definition new_WaveSurfer :: "load_env \<Rightarrow> player \<Rightarrow> options \<Rightarrow> wavesurfer" where
  "new_WaveSurfer env pl opts =
     (let s = wired pl opts
      in case source_url (options s) of
           Some url \<Rightarrow> snd (load env url (opt_peaks (options s)) (opt_duration (options s)) s)
         | None \<Rightarrow> s)"

definition create :: "load_env \<Rightarrow> player \<Rightarrow> options \<Rightarrow> wavesurfer" where
  "create env pl opts = new_WaveSurfer env pl opts"

subsection \<open>Destroy\<close>

text \<open>
  \<open>plugin.destroy()\<close>. Whether a plugin fires its own destroy signal while it is being
  destroyed is the plugin's business: \<open>fires p\<close> says so.
\<close>

definition plugin_destroy :: "(plugin \<Rightarrow> bool) \<Rightarrow> plugin \<Rightarrow> wavesurfer \<Rightarrow> wavesurfer" where
  "plugin_destroy fires p s =
     (let s1 = perform (PluginDestroy p) s in if fires p then plugin_destroy_signal p s1 else s1)"

text \<open>
  \<open>destroy\<close>. Each \<open>forEach\<close> walks the array it was called on: the plugins as they were
  when the loop began, even when a listener replaces \<open>this.plugins\<close> meanwhile.
\<close>

definition destroy :: "(plugin \<Rightarrow> bool) \<Rightarrow> wavesurfer \<Rightarrow> wavesurfer" where
  "destroy fires s =
     (let s1 = emit Destroy s;
          s2 = fold (plugin_destroy fires) (plugins s1) s1;
          s3 = fold unsubscribe (subscriptions s2) s2;
          s4 = perform TimerDestroy s3;
          s5 = perform RendererDestroy s4
      in perform PlayerDestroy s5)"

section \<open>The fallback order of the duration, as a function of what a load is given\<close>

text \<open>
  The order in which \<open>load\<close> settles the duration, written from the description of the
  load pipeline with JavaScript's truthiness in place of "provided and non-null": the
  explicit duration when it is truthy (neither \<open>0\<close> nor NaN); otherwise the duration the
  player reports once the source is bound, when truthy; otherwise the duration reported at
  the metadata signal, when truthy; otherwise \<open>0\<close>. \<open>None\<close>: the signal is awaited and
  never comes, so the duration is never settled.
\<close>

definition duration_priority :: "number option \<Rightarrow> number \<Rightarrow> number option \<Rightarrow> number option" where
  "duration_priority explicitDuration reported metadata =
     (if (case explicitDuration of Some d \<Rightarrow> truthy_number d | None \<Rightarrow> False) then explicitDuration
      else if truthy_number reported then Some reported
      else (case metadata of
              None \<Rightarrow> None
            | Some md \<Rightarrow> if truthy_number md then Some md else Some (Fin 0)))"

section \<open>Reading a trace\<close>

text \<open>The two calls that start the decode step of a load.\<close>

fun is_decode_step :: "action \<Rightarrow> bool" where
  "is_decode_step (CreateBuffer ch d) = True"
| "is_decode_step (DecoderDecode b sr) = True"
| "is_decode_step _ = False"

text \<open>The actions of a load that come before the duration is settled.\<close>

fun before_resolution :: "action \<Rightarrow> bool" where
  "before_resolution (Emit (Load u)) = True"
| "before_resolution (FetchBlob u fp) = True"
| "before_resolution (PlayerSetSrc u b) = True"
| "before_resolution PlayerOnceLoadedmetadata = True"
| "before_resolution _ = False"

text \<open>The three events that mark the stages of a load.\<close>

fun load_stage_event :: "event \<Rightarrow> bool" where
  "load_stage_event (Load u) = True"
| "load_stage_event (Decode d) = True"
| "load_stage_event (Ready d) = True"
| "load_stage_event _ = False"

text \<open>The call of the decoder's \<open>decode\<close>.\<close>

fun is_decoder_decode :: "action \<Rightarrow> bool" where
  "is_decoder_decode (DecoderDecode b sr) = True"
| "is_decoder_decode _ = False"

text \<open>
  The trace entries of \<open>n\<close> render signals of the renderer, for the listeners \<open>ls\<close> and
  seen with the snapshot \<open>sn\<close>: one \<open>redraw\<close> each while the listener is attached.
\<close>

definition redraws :: "subscription list \<Rightarrow> nat \<Rightarrow> snapshot \<Rightarrow> (action \<times> snapshot) list" where
  "redraws ls n sn = (if OnRenderer RRender \<in> set ls then replicate n (Emit Redraw, sn) else [])"


section \<open>Sample inputs\<close>

text \<open>A paused player with no media yet: its duration is NaN.\<close>

definition quiet_player :: player where
  "quiet_player = \<lparr>playing = False, media_duration = NaN, currentTime = Fin 0, playbackRate = Fin 1\<rparr>"

definition sample_buffer :: audiobuffer where
  "sample_buffer = \<lparr>buffer_duration = Fin 120, channels = [[0, 1 / 2]]\<rparr>"

text \<open>
  Collaborators of a load that goes well: the fetch yields four bytes, the duration is
  unknown until the metadata arrives and is then 120 seconds, the decoder yields the
  sample buffer, the renderer emits \<open>render\<close> once when it has drawn.
\<close>

definition sample_env :: load_env where
  "sample_env =
     \<lparr>fetchBlob = (\<lambda>u fp. Inr [82, 73, 70, 70]),
      reported_after_setSrc = NaN,
      loadedmetadata = Some (Fin 120),
      decode = (\<lambda>b sr. Inr sample_buffer),
      load_renders = 1\<rparr>"

text \<open>The same with a stream, whose duration the player reports as \<open>Infinity\<close>.\<close>

definition stream_env :: load_env where
  "stream_env = sample_env\<lparr>reported_after_setSrc := Infinity\<rparr>"

text \<open>
  A renderer that, on \<open>zoom(m)\<close>, stores \<open>m\<close> as \<open>minPxPerSec\<close> in the shared options and
  emits \<open>render\<close> once when it has drawn again.
\<close>

definition sample_zoom :: "number \<Rightarrow> zoom_env" where
  "sample_zoom m = \<lparr>zoom_renders = 1, zoom_writes = (\<lambda>os. os(MinPxPerSec \<mapsto> JNumber m))\<rparr>"

text \<open>An instance constructed with no url, no media and no plugins.\<close>

definition blank :: wavesurfer where
  "blank = wired quiet_player Map.empty"

section \<open>Basic facts about traces and snapshots\<close>

lemma events_of_append: "events_of (xs @ ys) = events_of xs @ events_of ys"
  by (induction xs rule: events_of.induct) simp_all

lemma perform_fields [simp]:
  "options (perform a s) = options s"
  "plugins (perform a s) = plugins s"
  "decodedData (perform a s) = decodedData s"
  "duration (perform a s) = duration s"
  "subscriptions (perform a s) = subscriptions s"
  "listeners (perform a s) = listeners s"
  "debounce (perform a s) = debounce s"
  "player (perform a s) = player s"
  "trace (perform a s) = trace s @ [(a, snapshot_of s)]"
  by (simp_all add: perform_def)

lemma snapshot_of_fields [simp]:
  "seen_plugins (snapshot_of s) = plugins s"
  "seen_decodedData (snapshot_of s) = decodedData s"
  "seen_duration (snapshot_of s) = duration s"
  by (simp_all add: snapshot_of_def)

lemma events_of_map_PluginDestroy: "events_of (map PluginDestroy ps) = []"
  by (induction ps) simp_all

lemma events_of_map_Unsubscribe: "events_of (map Unsubscribe us) = []"
  by (induction us) simp_all

lemma events_of_map_PluginInit: "events_of (map PluginInit ps) = []"
  by (induction ps) simp_all

section \<open>The result of a load, stage by stage\<close>

lemma renderer_rendered_times_result:
  "renderer_rendered_times n t = t\<lparr>trace := trace t @ redraws (listeners t) n (snapshot_of t)\<rparr>"
proof (induction n arbitrary: t)
  case 0
  show ?case by (simp add: redraws_def)
next
  case (Suc n)
  show ?case
  proof (cases "OnRenderer RRender \<in> set (listeners t)")
    case True
    then have step: "renderer_rendered t = t\<lparr>trace := trace t @ [(Emit Redraw, snapshot_of t)]\<rparr>"
      by (simp add: renderer_rendered_def on_render_def emit_def perform_def)
    have "snapshot_of (t\<lparr>trace := trace t @ [(Emit Redraw, snapshot_of t)]\<rparr>) = snapshot_of t"
      by (simp add: snapshot_of_def)
    then show ?thesis
      using True by (simp add: step Suc.IH redraws_def replicate_append_same)
  next
    case False
    then have step: "renderer_rendered t = t"
      by (simp add: renderer_rendered_def)
    show ?thesis
      using False by (simp add: step Suc.IH redraws_def)
  qed
qed

lemma events_of_redraws:
  "events_of (map fst (redraws ls n sn)) = (if OnRenderer RRender \<in> set ls then replicate n Redraw else [])"
proof -
  have "events_of (replicate k (Emit Redraw)) = replicate k Redraw" for k
    by (induction k) simp_all
  then show ?thesis by (simp add: redraws_def)
qed

lemma load_stage_redraws:
  "filter load_stage_event (events_of (map fst (redraws ls n sn))) = []"
  by (simp add: events_of_redraws)

lemma in_redraws: "e \<in> set (redraws ls n sn) \<Longrightarrow> e = (Emit Redraw, sn)"
  by (simp add: redraws_def split: if_splits)

lemma load_finish_result:
  "load_finish env t =
     (Resolved,
      t\<lparr>trace := trace t @ (Emit (Decode (duration t)), snapshot_of t) #
           (case decodedData t of
              Some b \<Rightarrow>
                (RendererRender b, snapshot_of t) #
                redraws (listeners t) (load_renders env) (snapshot_of t)
            | None \<Rightarrow> []) @
           [(Emit (Ready (duration t)), snapshot_of t)]\<rparr>)"
  by (simp add: load_finish_def emit_def perform_def snapshot_of_def Let_def
      renderer_rendered_times_result split: option.splits)

lemma load_decode_peaks:
  "load_decode env (Some ch) b d t =
     (Resolved,
      t\<lparr>decodedData := Some (createBuffer ch d),
        trace := trace t @
          [(CreateBuffer ch d, snapshot_of t),
           (Emit (Decode (duration t)),
            (snapshot_of t)\<lparr>seen_decodedData := Some (createBuffer ch d)\<rparr>),
           (RendererRender (createBuffer ch d),
            (snapshot_of t)\<lparr>seen_decodedData := Some (createBuffer ch d)\<rparr>)] @
          redraws (listeners t) (load_renders env)
            ((snapshot_of t)\<lparr>seen_decodedData := Some (createBuffer ch d)\<rparr>) @
          [(Emit (Ready (duration t)),
            (snapshot_of t)\<lparr>seen_decodedData := Some (createBuffer ch d)\<rparr>)]\<rparr>)"
  by (simp add: load_decode_def load_finish_result perform_def snapshot_of_def)

lemma load_decode_rejected:
  "decode env bytes (opt (options t) SampleRate) = Inl e \<Longrightarrow>
   load_decode env None (Some bytes) d t =
     (Rejected e,
      t\<lparr>trace := trace t @
          [(DecoderDecode bytes (opt (options t) SampleRate), snapshot_of t)]\<rparr>)"
  by (simp add: load_decode_def perform_def Let_def)

lemma load_decode_decoded:
  "decode env bytes (opt (options t) SampleRate) = Inr buf \<Longrightarrow>
   load_decode env None (Some bytes) d t =
     (Resolved,
      t\<lparr>decodedData := Some buf,
        duration := (if duration t = Some (Fin 0) \<or> duration t = Some Infinity
                then Some (buffer_duration buf) else duration t),
        trace := trace t @
          [(DecoderDecode bytes (opt (options t) SampleRate), snapshot_of t),
           (Emit (Decode (if duration t = Some (Fin 0) \<or> duration t = Some Infinity
                then Some (buffer_duration buf) else duration t)),
            \<lparr>seen_plugins = plugins t, seen_decodedData = Some buf,
             seen_duration = (if duration t = Some (Fin 0) \<or> duration t = Some Infinity
                then Some (buffer_duration buf) else duration t)\<rparr>),
           (RendererRender buf,
            \<lparr>seen_plugins = plugins t, seen_decodedData = Some buf,
             seen_duration = (if duration t = Some (Fin 0) \<or> duration t = Some Infinity
                then Some (buffer_duration buf) else duration t)\<rparr>)] @
          redraws (listeners t) (load_renders env)
            \<lparr>seen_plugins = plugins t, seen_decodedData = Some buf,
             seen_duration = (if duration t = Some (Fin 0) \<or> duration t = Some Infinity
                then Some (buffer_duration buf) else duration t)\<rparr> @
          [(Emit (Ready (if duration t = Some (Fin 0) \<or> duration t = Some Infinity
                then Some (buffer_duration buf) else duration t)),
            \<lparr>seen_plugins = plugins t, seen_decodedData = Some buf,
             seen_duration = (if duration t = Some (Fin 0) \<or> duration t = Some Infinity
                then Some (buffer_duration buf) else duration t)\<rparr>)]\<rparr>)"
  by (simp add: load_decode_def load_finish_result perform_def snapshot_of_def Let_def)

lemma load_duration_result:
  assumes "duration t = None"
  shows "fst (load_duration env dur t) =
      duration_priority dur (media_duration (player t)) (loadedmetadata env)"
    and "duration (snd (load_duration env dur t)) =
        duration_priority dur (media_duration (player t)) (loadedmetadata env)"
    and "decodedData (snd (load_duration env dur t)) = decodedData t"
    and "plugins (snd (load_duration env dur t)) = plugins t"
    and "options (snd (load_duration env dur t)) = options t"
    and "trace (snd (load_duration env dur t)) = trace t @
          (if (case dur of Some d \<Rightarrow> truthy_number d | None \<Rightarrow> False)
               \<or> truthy_number (media_duration (player t))
           then [] else [(PlayerOnceLoadedmetadata, snapshot_of t)])"
    and "listeners (snd (load_duration env dur t)) = listeners t"
  using assms
  by (simp_all add: load_duration_def reported_duration_def duration_priority_def getDuration_def
      Let_def split: option.splits)

lemma load_begin_fields:
  "trace (load_begin url s) =
     trace s @ (if isPlaying s then [(PlayerPause, snapshot_of s)] else []) @
       [(Emit (Load url), \<lparr>seen_plugins = plugins s, seen_decodedData = None, seen_duration = None\<rparr>)]"
  "plugins (load_begin url s) = plugins s"
  "options (load_begin url s) = options s"
  "decodedData (load_begin url s) = None"
  "duration (load_begin url s) = None"
  "listeners (load_begin url s) = listeners s"
  by (simp_all add: load_begin_def emit_def pause_def perform_def snapshot_of_def Let_def)

lemma setSrc_fields:
  "trace (setSrc r url b t) = trace t @ [(PlayerSetSrc url b, snapshot_of t)]"
  "plugins (setSrc r url b t) = plugins t"
  "options (setSrc r url b t) = options t"
  "decodedData (setSrc r url b t) = decodedData t"
  "duration (setSrc r url b t) = duration t"
  "media_duration (player (setSrc r url b t)) = r"
  "listeners (setSrc r url b t) = listeners t"
  by (simp_all add: setSrc_def perform_def Let_def)

lemma load_source_result:
  assumes t: "duration t = None" "decodedData t = None"
  shows "load_source env url cd dur b t =
     (case duration_priority dur (reported_after_setSrc env) (loadedmetadata env) of
        None \<Rightarrow> (Suspended, snd (load_duration env dur (setSrc (reported_after_setSrc env) url b t)))
      | Some r \<Rightarrow> load_decode env cd b r (snd (load_duration env dur (setSrc (reported_after_setSrc env) url b t))))"
proof -
  have d: "duration (setSrc (reported_after_setSrc env) url b t) = None"
    by (simp add: setSrc_fields t)
  obtain r t2 where eq: "load_duration env dur (setSrc (reported_after_setSrc env) url b t) = (r, t2)"
    by (cases "load_duration env dur (setSrc (reported_after_setSrc env) url b t)")
  have r: "r = duration_priority dur (reported_after_setSrc env) (loadedmetadata env)"
    using load_duration_result(1) [OF d, of env dur] eq by (simp add: setSrc_fields)
  show ?thesis
    by (simp add: load_source_def Let_def eq r [symmetric] split: option.splits)
qed

lemma resolved_state:
  assumes t: "duration t = None" "decodedData t = None"
  shows "duration (snd (load_duration env dur (setSrc (reported_after_setSrc env) url b t))) = duration_priority dur (reported_after_setSrc env) (loadedmetadata env)"
    and "decodedData (snd (load_duration env dur (setSrc (reported_after_setSrc env) url b t))) = None"
    and "plugins (snd (load_duration env dur (setSrc (reported_after_setSrc env) url b t))) = plugins t"
    and "options (snd (load_duration env dur (setSrc (reported_after_setSrc env) url b t))) = options t"
    and "trace (snd (load_duration env dur (setSrc (reported_after_setSrc env) url b t))) =
           trace t @ [(PlayerSetSrc url b, snapshot_of t)] @
           (if (case dur of Some d \<Rightarrow> truthy_number d | None \<Rightarrow> False)
               \<or> truthy_number (reported_after_setSrc env)
            then [] else [(PlayerOnceLoadedmetadata, snapshot_of t)])"
    and "listeners (snd (load_duration env dur (setSrc (reported_after_setSrc env) url b t))) = listeners t"
proof -
  have d: "duration (setSrc (reported_after_setSrc env) url b t) = None"
    by (simp add: setSrc_fields t)
  have sn: "snapshot_of (setSrc (reported_after_setSrc env) url b t) = snapshot_of t"
    by (simp add: snapshot_of_def setSrc_fields)
  show "duration (snd (load_duration env dur (setSrc (reported_after_setSrc env) url b t))) = duration_priority dur (reported_after_setSrc env) (loadedmetadata env)"
    using load_duration_result(2) [OF d, of env dur] by (simp add: setSrc_fields)
  show "decodedData (snd (load_duration env dur (setSrc (reported_after_setSrc env) url b t))) = None"
    using load_duration_result(3) [OF d, of env dur] by (simp add: setSrc_fields t)
  show "plugins (snd (load_duration env dur (setSrc (reported_after_setSrc env) url b t))) = plugins t"
    using load_duration_result(4) [OF d, of env dur] by (simp add: setSrc_fields)
  show "options (snd (load_duration env dur (setSrc (reported_after_setSrc env) url b t))) = options t"
    using load_duration_result(5) [OF d, of env dur] by (simp add: setSrc_fields)
  show "trace (snd (load_duration env dur (setSrc (reported_after_setSrc env) url b t))) =
           trace t @ [(PlayerSetSrc url b, snapshot_of t)] @
           (if (case dur of Some d \<Rightarrow> truthy_number d | None \<Rightarrow> False)
               \<or> truthy_number (reported_after_setSrc env)
            then [] else [(PlayerOnceLoadedmetadata, snapshot_of t)])"
    using load_duration_result(6) [OF d, of env dur] by (simp add: setSrc_fields sn)
  show "listeners (snd (load_duration env dur (setSrc (reported_after_setSrc env) url b t))) = listeners t"
    using load_duration_result(7) [OF d, of env dur] by (simp add: setSrc_fields)
qed

lemma load_peaks_result:
  "fst (load env url (Some ch) dur s) =
     (case duration_priority dur (reported_after_setSrc env) (loadedmetadata env) of
        None \<Rightarrow> Suspended
      | Some r \<Rightarrow> Resolved)
   \<and> duration (snd (load env url (Some ch) dur s)) =
       duration_priority dur (reported_after_setSrc env) (loadedmetadata env)
   \<and> decodedData (snd (load env url (Some ch) dur s)) =
       map_option (createBuffer ch)
         (duration_priority dur (reported_after_setSrc env) (loadedmetadata env))
   \<and> trace (snd (load env url (Some ch) dur s)) =
     trace s @ (if isPlaying s then [(PlayerPause, snapshot_of s)] else []) @
     [(Emit (Load url), \<lparr>seen_plugins = plugins s, seen_decodedData = None, seen_duration = None\<rparr>)] @
     [(PlayerSetSrc url None, \<lparr>seen_plugins = plugins s, seen_decodedData = None, seen_duration = None\<rparr>)] @
     (if (case dur of Some d \<Rightarrow> truthy_number d | None \<Rightarrow> False)
          \<or> truthy_number (reported_after_setSrc env)
      then []
      else [(PlayerOnceLoadedmetadata, \<lparr>seen_plugins = plugins s, seen_decodedData = None, seen_duration = None\<rparr>)]) @
     (case duration_priority dur (reported_after_setSrc env) (loadedmetadata env) of
        None \<Rightarrow> []
      | Some r \<Rightarrow>
          [(CreateBuffer ch r,
            \<lparr>seen_plugins = plugins s, seen_decodedData = None, seen_duration = Some r\<rparr>),
           (Emit (Decode (Some r)),
            \<lparr>seen_plugins = plugins s, seen_decodedData = Some (createBuffer ch r), seen_duration = Some r\<rparr>),
           (RendererRender (createBuffer ch r),
            \<lparr>seen_plugins = plugins s, seen_decodedData = Some (createBuffer ch r), seen_duration = Some r\<rparr>)] @
          redraws (listeners s) (load_renders env)
            \<lparr>seen_plugins = plugins s, seen_decodedData = Some (createBuffer ch r), seen_duration = Some r\<rparr> @
          [(Emit (Ready (Some r)),
            \<lparr>seen_plugins = plugins s, seen_decodedData = Some (createBuffer ch r), seen_duration = Some r\<rparr>)])"
proof -
  let ?s3 = "load_begin url s"
  let ?t = "snd (load_duration env dur (setSrc (reported_after_setSrc env) url None ?s3))"
  have d: "duration ?s3 = None" "decodedData ?s3 = None"
    by (simp_all add: load_begin_fields)
  have sn: "snapshot_of ?s3 = \<lparr>seen_plugins = plugins s, seen_decodedData = None, seen_duration = None\<rparr>"
    by (simp add: snapshot_of_def load_begin_fields)
  have eq: "load env url (Some ch) dur s =
      (case duration_priority dur (reported_after_setSrc env) (loadedmetadata env) of
         None \<Rightarrow> (Suspended, ?t)
       | Some r \<Rightarrow> load_decode env (Some ch) None r ?t)"
    using load_source_result [OF d, of env url "Some ch" dur None] by (simp add: load_def Let_def)
  note rs = resolved_state [OF d, of env dur url None] load_begin_fields sn
  have snt: "snapshot_of ?t =
      \<lparr>seen_plugins = plugins s, seen_decodedData = None,
       seen_duration = duration_priority dur (reported_after_setSrc env) (loadedmetadata env)\<rparr>"
    by (simp add: snapshot_of_def rs)
  show ?thesis
  proof (cases "duration_priority dur (reported_after_setSrc env) (loadedmetadata env)")
    case None
    then show ?thesis by (simp add: eq rs)
  next
    case (Some r)
    then show ?thesis by (simp add: eq rs snt load_decode_peaks)
  qed
qed

lemma load_fetch_failed_result:
  assumes "fetchBlob env url (opt (options s) FetchParams) = Inl e"
  shows "fst (load env url None dur s) = Rejected e
    \<and> duration (snd (load env url None dur s)) = None
    \<and> decodedData (snd (load env url None dur s)) = None
    \<and> trace (snd (load env url None dur s)) =
        trace s @ (if isPlaying s then [(PlayerPause, snapshot_of s)] else []) @
     [(Emit (Load url), \<lparr>seen_plugins = plugins s, seen_decodedData = None, seen_duration = None\<rparr>)] @
        [(FetchBlob url (opt (options s) FetchParams), \<lparr>seen_plugins = plugins s, seen_decodedData = None, seen_duration = None\<rparr>)]"
proof -
  have eq: "load env url None dur s =
     (Rejected e, perform (FetchBlob url (opt (options s) FetchParams)) (load_begin url s))"
    using assms by (simp add: load_def Let_def load_begin_fields)
  show ?thesis
    by (simp add: eq load_begin_fields snapshot_of_def)
qed

lemma load_fetched_result:
  assumes f: "fetchBlob env url (opt (options s) FetchParams) = Inr bytes"
  shows "fst (load env url None dur s) =
     (case duration_priority dur (reported_after_setSrc env) (loadedmetadata env) of
        None \<Rightarrow> Suspended
      | Some r \<Rightarrow>
          (case decode env bytes (opt (options s) SampleRate) of
             Inl e \<Rightarrow> Rejected e
           | Inr buf \<Rightarrow> Resolved))
    \<and> duration (snd (load env url None dur s)) =
     (case duration_priority dur (reported_after_setSrc env) (loadedmetadata env) of
        None \<Rightarrow> None
      | Some r \<Rightarrow>
          (case decode env bytes (opt (options s) SampleRate) of
             Inl e \<Rightarrow> Some r
           | Inr buf \<Rightarrow> (if r = Fin 0 \<or> r = Infinity then Some (buffer_duration buf) else Some r)))
    \<and> decodedData (snd (load env url None dur s)) =
     (case duration_priority dur (reported_after_setSrc env) (loadedmetadata env) of
        None \<Rightarrow> None
      | Some r \<Rightarrow>
          (case decode env bytes (opt (options s) SampleRate) of
             Inl e \<Rightarrow> None
           | Inr buf \<Rightarrow> Some buf))
    \<and> trace (snd (load env url None dur s)) =
     trace s @ (if isPlaying s then [(PlayerPause, snapshot_of s)] else []) @
     [(Emit (Load url), \<lparr>seen_plugins = plugins s, seen_decodedData = None, seen_duration = None\<rparr>)] @
     [(FetchBlob url (opt (options s) FetchParams), \<lparr>seen_plugins = plugins s, seen_decodedData = None, seen_duration = None\<rparr>),
      (PlayerSetSrc url (Some bytes), \<lparr>seen_plugins = plugins s, seen_decodedData = None, seen_duration = None\<rparr>)] @
     (if (case dur of Some d \<Rightarrow> truthy_number d | None \<Rightarrow> False)
          \<or> truthy_number (reported_after_setSrc env)
      then []
      else [(PlayerOnceLoadedmetadata, \<lparr>seen_plugins = plugins s, seen_decodedData = None, seen_duration = None\<rparr>)]) @
     (case duration_priority dur (reported_after_setSrc env) (loadedmetadata env) of
        None \<Rightarrow> []
      | Some r \<Rightarrow>
          (DecoderDecode bytes (opt (options s) SampleRate),
           \<lparr>seen_plugins = plugins s, seen_decodedData = None, seen_duration = Some r\<rparr>) #
          (case decode env bytes (opt (options s) SampleRate) of
             Inl e \<Rightarrow> []
           | Inr buf \<Rightarrow>
               [(Emit (Decode (if r = Fin 0 \<or> r = Infinity then Some (buffer_duration buf) else Some r)),
                 \<lparr>seen_plugins = plugins s, seen_decodedData = Some buf,
                  seen_duration = (if r = Fin 0 \<or> r = Infinity then Some (buffer_duration buf) else Some r)\<rparr>),
                (RendererRender buf,
                 \<lparr>seen_plugins = plugins s, seen_decodedData = Some buf,
                  seen_duration = (if r = Fin 0 \<or> r = Infinity then Some (buffer_duration buf) else Some r)\<rparr>)] @
               redraws (listeners s) (load_renders env)
                 \<lparr>seen_plugins = plugins s, seen_decodedData = Some buf,
                  seen_duration = (if r = Fin 0 \<or> r = Infinity then Some (buffer_duration buf) else Some r)\<rparr> @
               [(Emit (Ready (if r = Fin 0 \<or> r = Infinity then Some (buffer_duration buf) else Some r)),
                 \<lparr>seen_plugins = plugins s, seen_decodedData = Some buf,
                  seen_duration = (if r = Fin 0 \<or> r = Infinity then Some (buffer_duration buf) else Some r)\<rparr>)]))"
proof -
  let ?s4 = "perform (FetchBlob url (opt (options s) FetchParams)) (load_begin url s)"
  let ?t = "snd (load_duration env dur (setSrc (reported_after_setSrc env) url (Some bytes) ?s4))"
  have d: "duration ?s4 = None" "decodedData ?s4 = None"
    by (simp_all add: load_begin_fields)
  have sn: "snapshot_of ?s4 = \<lparr>seen_plugins = plugins s, seen_decodedData = None, seen_duration = None\<rparr>"
    by (simp add: snapshot_of_def load_begin_fields)
  have eq: "load env url None dur s =
      (case duration_priority dur (reported_after_setSrc env) (loadedmetadata env) of
         None \<Rightarrow> (Suspended, ?t)
       | Some r \<Rightarrow> load_decode env None (Some bytes) r ?t)"
    using load_source_result [OF d, of env url None dur "Some bytes"] f
    by (simp add: load_def Let_def load_begin_fields)
  note rs = resolved_state [OF d, of env dur url "Some bytes"] load_begin_fields sn
  have snt: "snapshot_of ?t =
      \<lparr>seen_plugins = plugins s, seen_decodedData = None,
       seen_duration = duration_priority dur (reported_after_setSrc env) (loadedmetadata env)\<rparr>"
    by (simp add: snapshot_of_def rs)
  show ?thesis
  proof (cases "duration_priority dur (reported_after_setSrc env) (loadedmetadata env)")
    case None
    then show ?thesis by (simp add: eq rs)
  next
    case (Some r)
    show ?thesis
    proof (cases "decode env bytes (opt (options s) SampleRate)")
      case (Inl e)
      have "decode env bytes (opt (options ?t) SampleRate) = Inl e"
        using Inl by (simp add: rs)
      from load_decode_rejected [OF this, of r] Some Inl show ?thesis
        by (simp add: eq rs snt)
    next
      case (Inr buf)
      have "decode env bytes (opt (options ?t) SampleRate) = Inr buf"
        using Inr by (simp add: rs)
      from load_decode_decoded [OF this, of r] Some Inr show ?thesis
        by (simp add: eq rs snt)
    qed
  qed
qed

section \<open>The sample inputs, evaluated\<close>

lemma blank_fields:
  "trace blank = []"
  "plugins blank = []"
  "options blank = defaultOptions"
  "decodedData blank = None"
  "duration blank = None"
  "player blank = quiet_player"
  "listeners blank =
     [OnMedia MTimeupdate, OnMedia MPlay, OnMedia MPause, OnMedia MEnded, OnMedia MSeeking,
      OnRenderer RClick, OnRenderer RScroll, OnRenderer RRender, OnRenderer RDrag, OnTimerTick]"
  by (simp_all add: blank_def wired_def initPlugins_def initTimerEvents_def initRendererEvents_def
      initPlayerEvents_def subscribe_def opt_def defaultOptions_def)

lemma blank_reads:
  "isPlaying blank = False"
  "events blank = []"
  "opt (options blank) FetchParams = JUndefined"
  "opt (options blank) SampleRate = JNumber (Fin 8000)"
  "opt defaultOptions FetchParams = JUndefined"
  "opt defaultOptions SampleRate = JNumber (Fin 8000)"
  "snapshot_of blank =
      \<lparr>seen_plugins = [], seen_decodedData = None, seen_duration = None\<rparr>"
  by (simp_all add: blank_fields isPlaying_def quiet_player_def events_def actions_def opt_def
      defaultOptions_def snapshot_of_def)

lemma sample_env_fields:
  "fetchBlob sample_env u fp = Inr [82, 73, 70, 70]"
  "reported_after_setSrc sample_env = NaN"
  "loadedmetadata sample_env = Some (Fin 120)"
  "decode sample_env b sr = Inr sample_buffer"
  "fetchBlob stream_env u fp = Inr [82, 73, 70, 70]"
  "reported_after_setSrc stream_env = Infinity"
  "loadedmetadata stream_env = Some (Fin 120)"
  "decode stream_env b sr = Inr sample_buffer"
  "load_renders sample_env = Suc 0"
  "load_renders stream_env = Suc 0"
  by (simp_all add: sample_env_def stream_env_def)

section \<open>Properties of load\<close>

text \<open>
  C1, as amended. The duration that \<open>load\<close> assigns to its field follows the order of
  \<open>duration_priority\<close>: the explicit duration when it is truthy (neither \<open>0\<close> nor NaN),
  otherwise the duration the player reports once the source is bound when that is truthy,
  otherwise the duration reported at the one-shot metadata signal when that is truthy,
  otherwise \<open>0\<close>; when the signal is awaited and never comes the load stays pending and
  the field stays null. With peaks supplied this is the final value of the field; in every
  load it is the value the field holds when the decode step starts. An explicit duration
  of \<open>0\<close> is treated like an absent one; a truthy one is always taken.
\<close>

theorem load_duration_priority:
  "duration (snd (load env url (Some ch) dur s)) =
      duration_priority dur (reported_after_setSrc env) (loadedmetadata env)
   \<and> fst (load env url (Some ch) dur s) = (if
       duration_priority dur (reported_after_setSrc env) (loadedmetadata env) = None
           then Suspended else Resolved)
   \<and> (\<forall>e \<in> set (drop (length (trace s)) (trace (snd (load env url cd dur s)))).
         is_decode_step (fst e) \<longrightarrow> seen_duration (snd e) =
             duration_priority dur (reported_after_setSrc env) (loadedmetadata env))
   \<and> duration_priority (Some (Fin 0)) reported metadata = duration_priority None reported metadata
   \<and> (truthy_number d \<longrightarrow> duration_priority (Some d) reported metadata = Some d)"
proof -
  have steps: "\<forall>e \<in> set (drop (length (trace s)) (trace (snd (load env url cd dur s)))).
         is_decode_step (fst e) \<longrightarrow> seen_duration (snd e) =
             duration_priority dur (reported_after_setSrc env) (loadedmetadata env)"
  proof (cases cd)
    case (Some ch')
    show ?thesis
      unfolding Some
      by (cases "duration_priority dur (reported_after_setSrc env) (loadedmetadata env)")
          (auto simp: load_peaks_result redraws_def)
  next
    case None
    show ?thesis
    proof (cases "fetchBlob env url (opt (options s) FetchParams)")
      case (Inl e)
      show ?thesis
        unfolding None by (simp add: load_fetch_failed_result [OF Inl])
    next
      case (Inr bytes)
      show ?thesis
        unfolding None
        by (cases "duration_priority dur (reported_after_setSrc env) (loadedmetadata env)";
            cases "decode env bytes (opt (options s) SampleRate)")
          (auto simp: load_fetched_result [OF Inr] redraws_def)
    qed
  qed
  have zero: "duration_priority (Some (Fin 0)) reported metadata = duration_priority None reported metadata"
    "truthy_number d \<longrightarrow> duration_priority (Some d) reported metadata = Some d"
    by (simp_all add: duration_priority_def)
  have peaks: "duration (snd (load env url (Some ch) dur s)) =
      duration_priority dur (reported_after_setSrc env) (loadedmetadata env)"
   "fst (load env url (Some ch) dur s) = (if
       duration_priority dur (reported_after_setSrc env) (loadedmetadata env) = None
           then Suspended else Resolved)"
    by (simp_all add: load_peaks_result split: option.splits)
  show ?thesis using steps zero peaks by blast
qed

text \<open>
  The theorem at sample inputs: an explicit duration of 3 seconds is taken; with an explicit
  duration of \<open>0\<close> the decoder is called while the field holds the 120 seconds of the
  metadata.
\<close>

theorem load_duration_priority_witness:
  "duration (snd (load sample_env ''a.mp3'' (Some [[0]]) (Some (Fin 3)) blank)) = Some (Fin 3)
   \<and> fst (load sample_env ''a.mp3'' (Some [[0]]) (Some (Fin 3)) blank) = Resolved
   \<and> (DecoderDecode [82, 73, 70, 70] (JNumber (Fin 8000)),
        \<lparr>seen_plugins = [], seen_decodedData = None, seen_duration = Some (Fin 120)\<rparr>)
       \<in> set (drop (length (trace blank)) (trace (snd (load sample_env ''a.mp3'' None (Some (Fin 0)) blank))))
   \<and> is_decode_step (DecoderDecode [82, 73, 70, 70] (JNumber (Fin 8000)))
   \<and> duration_priority (Some (Fin 0)) (reported_after_setSrc sample_env) (loadedmetadata sample_env)
       = Some (Fin 120)
   \<and> truthy_number (Fin 3)
   \<and> duration_priority (Some (Fin 3)) NaN None = Some (Fin 3)"
proof -
  have m: "(DecoderDecode [82, 73, 70, 70] (JNumber (Fin 8000)),
        \<lparr>seen_plugins = [], seen_decodedData = None, seen_duration = Some (Fin 120)\<rparr>)
       \<in> set (drop (length (trace blank)) (trace (snd (load sample_env ''a.mp3'' None (Some (Fin 0)) blank))))"
    by (simp add: load_fetched_result [of sample_env "''a.mp3''" blank "[82, 73, 70, 70]"]
        sample_env_fields blank_fields blank_reads duration_priority_def)
  have t: "truthy_number (Fin 3)" by simp
  from load_duration_priority [where env = sample_env and url = "''a.mp3''" and ch = "[[0]]"
      and dur = "Some (Fin 3)" and s = blank and cd = "Some [[0]]" and reported = NaN
      and metadata = None and d = "Fin 3"] t
  have a: "duration (snd (load sample_env ''a.mp3'' (Some [[0]]) (Some (Fin 3)) blank)) = Some (Fin 3)
     \<and> fst (load sample_env ''a.mp3'' (Some [[0]]) (Some (Fin 3)) blank) = Resolved
     \<and> duration_priority (Some (Fin 3)) NaN None = Some (Fin 3)"
    by (simp add: duration_priority_def)
  from load_duration_priority [where env = sample_env and url = "''a.mp3''"
      and dur = "Some (Fin 0)" and s = blank and cd = None] m
  have b: "seen_duration
      \<lparr>seen_plugins = [], seen_decodedData = None, seen_duration = Some (Fin 120)\<rparr>
      = duration_priority (Some (Fin 0)) (reported_after_setSrc sample_env) (loadedmetadata sample_env)"
    by fastforce
  show ?thesis using a b m by simp
qed

text \<open>
  C1 as stated fails: \<open>load('a.mp3', [[0]], 0)\<close> on a player that reports NaN and then,
  at the metadata signal, 120 seconds ends with a duration of 120, not with the explicit \<open>0\<close>.
\<close>

theorem explicit_zero_duration_counterexample:
  "duration (snd (load sample_env ''a.mp3'' (Some [[0]]) (Some (Fin 0)) blank)) = Some (Fin 120)
   \<and> duration (snd (load sample_env ''a.mp3'' (Some [[0]]) (Some (Fin 0)) blank)) \<noteq> Some (Fin 0)"
  by (simp add: load_peaks_result duration_priority_def sample_env_fields)

text \<open>
  C2. When a decode occurred (no peaks, the blob fetched and decoded) and the duration
  settled before it was \<open>0\<close> or \<open>Infinity\<close> (the value the code compares with), the field
  ends as the decoded buffer's own duration; when it was anything else, and whenever peaks
  were supplied, the field ends as the duration settled before.
\<close>

theorem decode_corrects_duration:
  "(fetchBlob env url (opt (options s) FetchParams) = Inr bytes \<and> decode env bytes
      (opt (options s) SampleRate) = Inr buf
      \<and>
          duration_priority dur (reported_after_setSrc env) (loadedmetadata env) = Some r \<longrightarrow>
      fst (load env url None dur s) = Resolved
      \<and> decodedData (snd (load env url None dur s)) = Some buf
      \<and> duration (snd (load env url None dur s)) =
          (if r = Fin 0 \<or> r = Infinity then Some (buffer_duration buf) else Some r))
   \<and> (duration_priority dur (reported_after_setSrc env) (loadedmetadata env) = Some r \<longrightarrow>
      duration (snd (load env url (Some ch) dur s)) = Some r)"
proof -
  have a: "fst (load env url None dur s) = Resolved
      \<and> decodedData (snd (load env url None dur s)) = Some buf
      \<and> duration (snd (load env url None dur s)) =
          (if r = Fin 0 \<or> r = Infinity then Some (buffer_duration buf) else Some r)"
    if f: "fetchBlob env url (opt (options s) FetchParams) = Inr bytes"
      and d: "decode env bytes (opt (options s) SampleRate) = Inr buf"
      and p: "duration_priority dur (reported_after_setSrc env) (loadedmetadata env) = Some r"
    by (simp add: load_fetched_result [OF f] d p)
  have b: "duration (snd (load env url (Some ch) dur s)) = Some r"
    if p: "duration_priority dur (reported_after_setSrc env) (loadedmetadata env) = Some r"
    by (simp add: load_peaks_result p)
  show ?thesis using a b by blast
qed

text \<open>
  The theorem at sample inputs: a stream reported as \<open>Infinity\<close> ends with the 120
  seconds of the decoded buffer; with peaks the \<open>Infinity\<close> stays.
\<close>

theorem decode_corrects_duration_witness:
  "fetchBlob stream_env ''a.mp3'' (opt (options blank) FetchParams) = Inr [82, 73, 70, 70]
   \<and> decode stream_env [82, 73, 70, 70] (opt (options blank) SampleRate) = Inr sample_buffer
   \<and> duration_priority None (reported_after_setSrc stream_env) (loadedmetadata stream_env) = Some Infinity
   \<and> fst (load stream_env ''a.mp3'' None None blank) = Resolved
   \<and> decodedData (snd (load stream_env ''a.mp3'' None None blank)) = Some sample_buffer
   \<and> duration (snd (load stream_env ''a.mp3'' None None blank)) = Some (Fin 120)
   \<and> duration (snd (load stream_env ''a.mp3'' (Some [[0]]) None blank)) = Some Infinity"
proof -
  have h: "fetchBlob stream_env ''a.mp3'' (opt (options blank) FetchParams) = Inr [82, 73, 70, 70]
     \<and> decode stream_env [82, 73, 70, 70] (opt (options blank) SampleRate) = Inr sample_buffer
     \<and> duration_priority None (reported_after_setSrc stream_env) (loadedmetadata stream_env) = Some Infinity"
    by (simp add: sample_env_fields duration_priority_def)
  from decode_corrects_duration [where env = stream_env and url = "''a.mp3''" and s = blank
      and bytes = "[82, 73, 70, 70]" and buf = sample_buffer and dur = None and r = Infinity
      and ch = "[[0]]"] h
  show ?thesis by (simp add: sample_buffer_def)
qed

text \<open>
  C3. Of the events of a call of \<open>load\<close>, those that mark its stages come in this order:
  for a call that resolves they are \<open>load(url)\<close>, \<open>decode(duration)\<close> and
  \<open>ready(duration)\<close>, with the final value of the duration field, which is not null; for a
  call that rejects or stays pending there is \<open>load(url)\<close> alone. Other events, such as
  the \<open>redraw\<close> of the render listener, may come in between.
\<close>

theorem load_event_order:
  "(fst (load env url cd dur s) = Resolved \<longrightarrow>
      filter load_stage_event (events (snd (load env url cd dur s))) =
        filter load_stage_event (events s) @
          [Load url, Decode (duration (snd (load env url cd dur s))),
           Ready (duration (snd (load env url cd dur s)))]
      \<and> duration (snd (load env url cd dur s)) \<noteq> None)
   \<and> (fst (load env url cd dur s) \<noteq> Resolved \<longrightarrow>
      filter load_stage_event (events (snd (load env url cd dur s))) =
        filter load_stage_event (events s) @ [Load url])"
proof (cases cd)
  case (Some ch)
  show ?thesis
    unfolding Some events_def actions_def
    by (cases "duration_priority dur (reported_after_setSrc env) (loadedmetadata env)")
      (simp_all add: load_peaks_result events_of_append load_stage_redraws)
next
  case None
  show ?thesis
  proof (cases "fetchBlob env url (opt (options s) FetchParams)")
    case (Inl e)
    show ?thesis
      unfolding None events_def actions_def
      by (simp add: load_fetch_failed_result [OF Inl] events_of_append)
  next
    case (Inr bytes)
    show ?thesis
      unfolding None events_def actions_def
      by (cases "duration_priority dur (reported_after_setSrc env) (loadedmetadata env)";
          cases "decode env bytes (opt (options s) SampleRate)")
        (simp_all add: load_fetched_result [OF Inr] events_of_append load_stage_redraws)
  qed
qed

text \<open>
  The theorem at sample inputs: a load that resolves, with the \<open>redraw\<close> of its rendering
  between \<open>decode\<close> and \<open>ready\<close>, and one whose fetch fails.
\<close>

theorem load_event_order_witness:
  "fst (load sample_env ''a.mp3'' None None blank) = Resolved
   \<and> events (snd (load sample_env ''a.mp3'' None None blank)) =
       [Load ''a.mp3'', Decode (Some (Fin 120)), Redraw, Ready (Some (Fin 120))]
   \<and> filter load_stage_event (events (snd (load sample_env ''a.mp3'' None None blank))) =
       [Load ''a.mp3'', Decode (Some (Fin 120)), Ready (Some (Fin 120))]
   \<and> fst (load (sample_env\<lparr>fetchBlob := \<lambda>u fp. Inl FetchFailure\<rparr>) ''a.mp3'' None None blank)
       = Rejected FetchFailure
   \<and> filter load_stage_event
        (events (snd (load (sample_env\<lparr>fetchBlob := \<lambda>u fp. Inl FetchFailure\<rparr>) ''a.mp3'' None None blank)))
       = [Load ''a.mp3'']"
proof -
  have r: "fst (load sample_env ''a.mp3'' None None blank) = Resolved"
    "duration (snd (load sample_env ''a.mp3'' None None blank)) = Some (Fin 120)"
    by (simp_all add: load_fetched_result [of sample_env "''a.mp3''" blank "[82, 73, 70, 70]"]
        sample_env_fields duration_priority_def)
  have ev: "events (snd (load sample_env ''a.mp3'' None None blank)) =
       [Load ''a.mp3'', Decode (Some (Fin 120)), Redraw, Ready (Some (Fin 120))]"
    by (simp add: events_def actions_def redraws_def
        load_fetched_result [of sample_env "''a.mp3''" blank "[82, 73, 70, 70]"]
        sample_env_fields blank_fields blank_reads duration_priority_def)
  have f: "fst (load (sample_env\<lparr>fetchBlob := \<lambda>u fp. Inl FetchFailure\<rparr>) ''a.mp3'' None None blank)
       = Rejected FetchFailure"
    by (simp add: load_fetch_failed_result [of _ "''a.mp3''" blank FetchFailure])
  from load_event_order [of sample_env "''a.mp3''" None None blank]
    load_event_order [of "sample_env\<lparr>fetchBlob := \<lambda>u fp. Inl FetchFailure\<rparr>" "''a.mp3''" None None blank]
    r f
  have "filter load_stage_event (events (snd (load sample_env ''a.mp3'' None None blank))) =
       [Load ''a.mp3'', Decode (Some (Fin 120)), Ready (Some (Fin 120))]
     \<and> filter load_stage_event
        (events (snd (load (sample_env\<lparr>fetchBlob := \<lambda>u fp. Inl FetchFailure\<rparr>) ''a.mp3'' None None blank)))
       = [Load ''a.mp3'']"
    by (simp add: blank_reads)
  then show ?thesis using r f ev by simp
qed

text \<open>
  C4. A load only appends to the trace. After the pause of a playing player, its first
  action is the \<open>load\<close> event, seen with \<open>decodedData\<close> and \<open>duration\<close> both null; the
  fetch, the binding of the source and the wait for the metadata see both null as well,
  and the decode step (building the buffer from the peaks, or calling the decoder) still
  sees \<open>decodedData\<close> null. Whatever is seen non-null during the call is the final
  \<open>decodedData\<close>, which is the buffer built from the peaks when peaks were supplied, the
  decoder's result when the blob was decoded, and null in every other case.
\<close>

theorem load_resets_fields:
  "take (length (trace s)) (trace (snd (load env url cd dur s))) = trace s
   \<and> take (Suc (if isPlaying s then 1 else 0))
         (drop (length (trace s)) (trace (snd (load env url cd dur s)))) =
       (if isPlaying s then [(PlayerPause, snapshot_of s)] else []) @
       [(Emit (Load url), \<lparr>seen_plugins = plugins s, seen_decodedData = None, seen_duration = None\<rparr>)]
   \<and> (\<forall>e \<in> set (drop (if isPlaying s then 1 else 0)
                    (drop (length (trace s)) (trace (snd (load env url cd dur s))))).
        (before_resolution (fst e) \<longrightarrow>
           seen_decodedData (snd e) = None \<and> seen_duration (snd e) = None)
        \<and> (is_decode_step (fst e) \<longrightarrow> seen_decodedData (snd e) = None)
        \<and> (seen_decodedData (snd e) = None
            \<or> seen_decodedData (snd e) = decodedData (snd (load env url cd dur s))))
   \<and> decodedData (snd (load env url cd dur s)) =
       (case cd of
          Some ch \<Rightarrow>
            map_option (createBuffer ch) (duration_priority dur (reported_after_setSrc env) (loadedmetadata env))
        | None \<Rightarrow>
            (case fetchBlob env url (opt (options s) FetchParams) of
               Inl e \<Rightarrow> None
             | Inr bytes \<Rightarrow>
                 (case duration_priority dur (reported_after_setSrc env) (loadedmetadata env) of
                    None \<Rightarrow> None
                  | Some r \<Rightarrow>
                      (case decode env bytes (opt (options s) SampleRate) of
                         Inl e \<Rightarrow> None
                       | Inr buf \<Rightarrow> Some buf))))"
proof (cases cd)
  case (Some ch)
  show ?thesis
    unfolding Some
    by (cases "duration_priority dur (reported_after_setSrc env) (loadedmetadata env)")
      (auto simp: load_peaks_result redraws_def)
next
  case None
  show ?thesis
  proof (cases "fetchBlob env url (opt (options s) FetchParams)")
    case (Inl e)
    show ?thesis
      unfolding None by (simp add: load_fetch_failed_result [OF Inl] Inl)
  next
    case (Inr bytes)
    show ?thesis
      unfolding None
      by (cases "duration_priority dur (reported_after_setSrc env) (loadedmetadata env)";
          cases "decode env bytes (opt (options s) SampleRate)")
        (auto simp: load_fetched_result [OF Inr] Inr redraws_def)
  qed
qed

text \<open>
  The theorem at a sample load that fetches and decodes: the call of the decoder sees
  \<open>decodedData\<close> null, the \<open>redraw\<close> of the rendering sees the decoded buffer.
\<close>

theorem load_resets_fields_witness:
  "take 1 (trace (snd (load sample_env ''a.mp3'' None None blank))) =
     [(Emit (Load ''a.mp3''), \<lparr>seen_plugins = [], seen_decodedData = None, seen_duration = None\<rparr>)]
   \<and> (FetchBlob ''a.mp3'' JUndefined,
        \<lparr>seen_plugins = [], seen_decodedData = None, seen_duration = None\<rparr>)
       \<in> set (trace (snd (load sample_env ''a.mp3'' None None blank)))
   \<and> before_resolution (FetchBlob ''a.mp3'' JUndefined)
   \<and> (DecoderDecode [82, 73, 70, 70] (JNumber (Fin 8000)),
        \<lparr>seen_plugins = [], seen_decodedData = None, seen_duration = Some (Fin 120)\<rparr>)
       \<in> set (trace (snd (load sample_env ''a.mp3'' None None blank)))
   \<and> is_decode_step (DecoderDecode [82, 73, 70, 70] (JNumber (Fin 8000)))
   \<and> (Emit Redraw,
        \<lparr>seen_plugins = [], seen_decodedData = Some sample_buffer, seen_duration = Some (Fin 120)\<rparr>)
       \<in> set (trace (snd (load sample_env ''a.mp3'' None None blank)))
   \<and> decodedData (snd (load sample_env ''a.mp3'' None None blank)) = Some sample_buffer"
proof -
  have m: "(FetchBlob ''a.mp3'' JUndefined,
        \<lparr>seen_plugins = [], seen_decodedData = None, seen_duration = None\<rparr>)
       \<in> set (trace (snd (load sample_env ''a.mp3'' None None blank)))"
    "(DecoderDecode [82, 73, 70, 70] (JNumber (Fin 8000)),
        \<lparr>seen_plugins = [], seen_decodedData = None, seen_duration = Some (Fin 120)\<rparr>)
       \<in> set (trace (snd (load sample_env ''a.mp3'' None None blank)))"
    "(Emit Redraw,
        \<lparr>seen_plugins = [], seen_decodedData = Some sample_buffer, seen_duration = Some (Fin 120)\<rparr>)
       \<in> set (trace (snd (load sample_env ''a.mp3'' None None blank)))"
    by (simp_all add: load_fetched_result [of sample_env "''a.mp3''" blank "[82, 73, 70, 70]"]
        sample_env_fields blank_fields blank_reads duration_priority_def redraws_def)
  from load_resets_fields [of blank sample_env "''a.mp3''" None None]
  have "take 1 (trace (snd (load sample_env ''a.mp3'' None None blank))) =
     [(Emit (Load ''a.mp3''), \<lparr>seen_plugins = [], seen_decodedData = None, seen_duration = None\<rparr>)]
     \<and> decodedData (snd (load sample_env ''a.mp3'' None None blank)) = Some sample_buffer"
    by (simp add: blank_fields blank_reads sample_env_fields duration_priority_def)
  then show ?thesis using m by simp
qed

section \<open>Properties of zoom\<close>

lemma renderer_zoom_trace:
  "trace (renderer_zoom rz m s) =
     trace s @ (RendererZoom m, snapshot_of s) # redraws (listeners s) (zoom_renders rz) (snapshot_of s)"
  "decodedData (renderer_zoom rz m s) = decodedData s"
  by (simp_all add: renderer_zoom_def renderer_rendered_times_result snapshot_of_def Let_def)

lemma not_decode_redraws: "filter is_decoder_decode (map fst (redraws ls n sn)) = []"
  by (simp add: redraws_def)

text \<open>
  C5. With \<open>decodedData\<close> null, \<open>zoom\<close> fails with NothingLoaded and leaves no successor
  state, so nothing is emitted. With \<open>decodedData\<close> non-null it succeeds and only appends
  to the trace: the first action it adds is the renderer's \<open>zoom(minPxPerSec)\<close>, the last
  is the event \<open>zoom(minPxPerSec)\<close>, and none of them is a call of the decoder's
  \<open>decode\<close>. What the renderer does in between is its own business.
\<close>

theorem zoom_needs_decoded_data:
  "(decodedData s = None \<longrightarrow> zoom rz m s = Inl NothingLoaded) \<and>
   (decodedData s \<noteq> None \<longrightarrow>
      (case zoom rz m s of
         Inl e \<Rightarrow> False
       | Inr s' \<Rightarrow>
           take (length (actions s)) (actions s') = actions s
           \<and> take 1 (drop (length (actions s)) (actions s')) = [RendererZoom m]
           \<and> take 1 (rev (actions s')) = [Emit (Zoom m)]
           \<and> filter is_decoder_decode (drop (length (actions s)) (actions s')) = []))"
proof -
  have a: "actions (emit (Zoom m) (renderer_zoom rz m s)) =
      actions s @ RendererZoom m # map fst (redraws (listeners s) (zoom_renders rz) (snapshot_of s))
        @ [Emit (Zoom m)]"
    by (simp add: actions_def emit_def renderer_zoom_trace)
  show ?thesis
    by (cases "decodedData s") (simp_all add: zoom_def a not_decode_redraws)
qed

text \<open>
  The theorem at sample inputs: before any load, and after a load with peaks only, where
  the renderer redraws once for the load and once for the zoom.
\<close>

theorem zoom_needs_decoded_data_witness:
  "decodedData blank = None
   \<and> zoom (sample_zoom (Fin 50)) (Fin 50) blank = Inl NothingLoaded
   \<and> decodedData (snd (load sample_env ''a.mp3'' (Some [[0]]) (Some (Fin 3)) blank)) \<noteq> None
   \<and> (case zoom (sample_zoom (Fin 50)) (Fin 50)
              (snd (load sample_env ''a.mp3'' (Some [[0]]) (Some (Fin 3)) blank)) of
         Inl e \<Rightarrow> False
       | Inr s' \<Rightarrow>
           take 1 (rev (actions s')) = [Emit (Zoom (Fin 50))]
           \<and> events s' =
               [Load ''a.mp3'', Decode (Some (Fin 3)), Redraw, Ready (Some (Fin 3)), Redraw,
                Zoom (Fin 50)]
           \<and> opt (options s') MinPxPerSec = JNumber (Fin 50))"
proof -
  let ?loaded = "snd (load sample_env ''a.mp3'' (Some [[0]]) (Some (Fin 3)) blank)"
  have d: "decodedData ?loaded \<noteq> None"
    by (simp add: load_peaks_result duration_priority_def)
  obtain s' where s': "zoom (sample_zoom (Fin 50)) (Fin 50) ?loaded = Inr s'"
    using d by (auto simp: zoom_def split: option.splits)
  have l: "listeners ?loaded = listeners blank"
    by (simp add: load_def load_source_def Let_def load_begin_fields setSrc_fields
        load_duration_def load_decode_peaks)
  have e: "events ?loaded = [Load ''a.mp3'', Decode (Some (Fin 3)), Redraw, Ready (Some (Fin 3))]"
    by (simp add: events_def actions_def load_peaks_result duration_priority_def blank_fields
        blank_reads redraws_def sample_env_fields)
  have s'_def: "s' = emit (Zoom (Fin 50)) (renderer_zoom (sample_zoom (Fin 50)) (Fin 50) ?loaded)"
    using s' d by (auto simp: zoom_def split: option.splits)
  have ev: "events s' =
      [Load ''a.mp3'', Decode (Some (Fin 3)), Redraw, Ready (Some (Fin 3)), Redraw, Zoom (Fin 50)]"
    using e
    by (simp add: s'_def events_def actions_def emit_def renderer_zoom_trace l blank_fields
        redraws_def sample_zoom_def events_of_append)
  have o: "opt (options s') MinPxPerSec = JNumber (Fin 50)"
    by (simp add: s'_def emit_def renderer_zoom_def renderer_rendered_times_result Let_def
        sample_zoom_def opt_def)
  from zoom_needs_decoded_data [of blank "sample_zoom (Fin 50)" "Fin 50"]
    zoom_needs_decoded_data [of ?loaded "sample_zoom (Fin 50)" "Fin 50"] d
  have "zoom (sample_zoom (Fin 50)) (Fin 50) blank = Inl NothingLoaded
     \<and> take 1 (rev (actions s')) = [Emit (Zoom (Fin 50))]"
    by (simp add: blank_fields s')
  then show ?thesis using d ev o by (simp add: blank_fields s')
qed

section \<open>Properties of the plugin registry\<close>

text \<open>
  C6. \<open>registerPlugin p\<close> returns \<open>p\<close>, calls its \<open>init\<close> and appends it to the active
  plugins. When the destroy signal of \<open>p\<close> then fires, \<open>p\<close> is gone from
  \<open>getActivePlugins()\<close>, the other plugins stay in order, and the one-shot listener is
  released. A second firing changes nothing, and neither does running the removal again.
\<close>

theorem registerPlugin_lifecycle:
  "fst (registerPlugin p s) = p
   \<and> actions (snd (registerPlugin p s)) = actions s @ [PluginInit p]
   \<and> getActivePlugins (snd (registerPlugin p s)) = getActivePlugins s @ [p]
   \<and> getActivePlugins (plugin_destroy_signal p (snd (registerPlugin p s))) =
       filter (\<lambda>q. q \<noteq> p) (getActivePlugins s)
   \<and> p \<notin> set (getActivePlugins (plugin_destroy_signal p (snd (registerPlugin p s))))
   \<and> OncePluginDestroy p \<notin> set (listeners (plugin_destroy_signal p (snd (registerPlugin p s))))
   \<and> plugin_destroy_signal p (plugin_destroy_signal p (snd (registerPlugin p s))) =
       plugin_destroy_signal p (snd (registerPlugin p s))
   \<and> unregister p (plugin_destroy_signal p (snd (registerPlugin p s))) =
       plugin_destroy_signal p (snd (registerPlugin p s))
   \<and> unregister p (unregister p t) = unregister p t"
  by (simp add: registerPlugin_def plugin_destroy_signal_def unregister_def getActivePlugins_def
      perform_def actions_def Let_def)

section \<open>Properties of destroy\<close>

lemma plugin_destroy_trace:
  "trace (plugin_destroy fires p s) = trace s @ [(PluginDestroy p, snapshot_of s)]
   \<and> subscriptions (plugin_destroy fires p s) = subscriptions s"
  by (simp add: plugin_destroy_def plugin_destroy_signal_def unregister_def perform_def Let_def)

lemma fold_plugin_destroy:
  "\<exists>ys. trace (fold (plugin_destroy fires) ps s) = trace s @ ys \<and> map fst ys = map PluginDestroy ps
     \<and> subscriptions (fold (plugin_destroy fires) ps s) = subscriptions s"
proof (induction ps arbitrary: s)
  case Nil
  show ?case by simp
next
  case (Cons p ps)
  from Cons.IH [of "plugin_destroy fires p s"] obtain ys where
    ys: "trace (fold (plugin_destroy fires) ps (plugin_destroy fires p s))
         = trace (plugin_destroy fires p s) @ ys"
      "map fst ys = map PluginDestroy ps"
      "subscriptions (fold (plugin_destroy fires) ps (plugin_destroy fires p s))
         = subscriptions (plugin_destroy fires p s)"
    by blast
  show ?case
    by (rule exI [of _ "(PluginDestroy p, snapshot_of s) # ys"]) (simp add: ys plugin_destroy_trace)
qed

lemma fold_unsubscribe:
  "\<exists>ys. trace (fold unsubscribe us s) = trace s @ ys \<and> map fst ys = map Unsubscribe us"
proof (induction us arbitrary: s)
  case Nil
  show ?case by simp
next
  case (Cons u us)
  from Cons.IH [of "unsubscribe u s"] obtain ys where
    ys: "trace (fold unsubscribe us (unsubscribe u s)) = trace (unsubscribe u s) @ ys"
      "map fst ys = map Unsubscribe us"
    by blast
  have step: "trace (unsubscribe u s) = trace s @ [(Unsubscribe u, snapshot_of s)]"
    by (simp add: unsubscribe_def perform_def Let_def)
  show ?case
    by (rule exI [of _ "(Unsubscribe u, snapshot_of s) # ys"]) (simp add: ys step)
qed

text \<open>
  C7. The actions of \<open>destroy\<close> are, in this order: the \<open>destroy\<close> event, the destruction
  of every plugin registered at that moment, the release of every subscription, the
  destruction of the timer, of the renderer, and of the player. The \<open>destroy\<close> event is
  seen with the state as it was before the call: its listener still gets the registered
  plugins from \<open>getActivePlugins()\<close>. It is the only public event of the call.
\<close>

theorem destroy_order:
  "actions (destroy fires s) =
     actions s @ [Emit Destroy] @ map PluginDestroy (plugins s) @ map Unsubscribe (subscriptions s)
       @ [TimerDestroy, RendererDestroy, PlayerDestroy]
   \<and> trace (destroy fires s) ! length (trace s) = (Emit Destroy, snapshot_of s)
   \<and> seen_plugins (snapshot_of s) = getActivePlugins s
   \<and> events (destroy fires s) = events s @ [Destroy]"
proof -
  define s1 where "s1 = emit Destroy s"
  define s2 where "s2 = fold (plugin_destroy fires) (plugins s1) s1"
  define s3 where "s3 = fold unsubscribe (subscriptions s2) s2"
  have t1: "trace s1 = trace s @ [(Emit Destroy, snapshot_of s)]"
    and p1: "plugins s1 = plugins s" and u1: "subscriptions s1 = subscriptions s"
    by (simp_all add: s1_def emit_def perform_def)
  obtain ys where ys: "trace s2 = trace s1 @ ys" "map fst ys = map PluginDestroy (plugins s1)"
    "subscriptions s2 = subscriptions s1"
    unfolding s2_def using fold_plugin_destroy [of fires "plugins s1" s1] by blast
  obtain zs where zs: "trace s3 = trace s2 @ zs" "map fst zs = map Unsubscribe (subscriptions s2)"
    unfolding s3_def using fold_unsubscribe [of "subscriptions s2" s2] by blast
  have d: "destroy fires s = perform PlayerDestroy (perform RendererDestroy (perform TimerDestroy s3))"
    by (simp add: destroy_def Let_def s1_def s2_def s3_def)
  have tr: "trace (destroy fires s) =
     trace s @ [(Emit Destroy, snapshot_of s)] @ ys @ zs @
       [(TimerDestroy, snapshot_of s3), (RendererDestroy, snapshot_of s3), (PlayerDestroy, snapshot_of s3)]"
    by (simp add: d perform_def snapshot_of_def zs ys t1)
  have a: "actions (destroy fires s) =
     actions s @ [Emit Destroy] @ map PluginDestroy (plugins s) @ map Unsubscribe (subscriptions s)
       @ [TimerDestroy, RendererDestroy, PlayerDestroy]"
    by (simp add: actions_def tr ys zs p1 u1)
  have n: "trace (destroy fires s) ! length (trace s) = (Emit Destroy, snapshot_of s)"
    by (simp add: tr nth_append)
  have e: "events (destroy fires s) = events s @ [Destroy]"
    unfolding events_def a
    by (simp add: events_of_append events_of_map_PluginDestroy events_of_map_Unsubscribe)
  show ?thesis using a n e by (simp add: snapshot_of_def getActivePlugins_def)
qed

section \<open>Properties of setOptions\<close>



section \<open>Properties of the interaction handlers\<close>

text \<open>
  C10. After \<open>toggleInteraction(false)\<close> a click and a drag from the renderer leave the
  whole state as it is, one by one and in any sequence: no seek, no progress update, no
  scheduled commit, no event. After \<open>toggleInteraction(true)\<close> a click seeks and emits
  \<open>interaction\<close> and \<open>click\<close>; a drag updates the progress, replaces the scheduled commit
  (delay 0 when playing, 200 otherwise) and emits \<open>interaction\<close> and \<open>drag\<close>.
\<close>

theorem interaction_gate:
  "on_click x (toggleInteraction False s) = toggleInteraction False s
   \<and> on_drag x (toggleInteraction False s) = toggleInteraction False s
   \<and> renderer_click x (toggleInteraction False s) = toggleInteraction False s
   \<and> renderer_drag x (toggleInteraction False s) = toggleInteraction False s
   \<and> fold (\<lambda>(dragged, y). if dragged then renderer_drag y else renderer_click y) evs
        (toggleInteraction False s) = toggleInteraction False s
   \<and> actions (on_click x (toggleInteraction True s)) =
       actions s @ [PlayerSetTime (times_number (getDuration s) x),
                    Emit (Interaction (getCurrentTime (seekTo x s))), Emit (Click x)]
   \<and> actions (on_drag x (toggleInteraction True s)) =
       actions s @ [RendererRenderProgress x, ClearTimeout, SetTimeout (if isPlaying s then 0 else 200),
                    Emit (Interaction (times_number x (getDuration s))), Emit (Drag x)]
   \<and> debounce (on_drag x (toggleInteraction True s)) = Some (if isPlaying s then 0 else 200, x)"
proof -
  have off: "on_click y (toggleInteraction False s) = toggleInteraction False s"
    "on_drag y (toggleInteraction False s) = toggleInteraction False s" for y
    by (simp_all add: on_click_def on_drag_def toggleInteraction_def opt_def)
  have disp: "renderer_click y (toggleInteraction False s) = toggleInteraction False s"
    "renderer_drag y (toggleInteraction False s) = toggleInteraction False s" for y
    by (simp_all add: renderer_click_def renderer_drag_def off)
  have seq: "fold (\<lambda>(dragged, y). if dragged then renderer_drag y else renderer_click y) evs
        (toggleInteraction False s) = toggleInteraction False s"
    by (induction evs) (auto simp: disp)
  have on: "actions (on_click x (toggleInteraction True s)) =
       actions s @ [PlayerSetTime (times_number (getDuration s) x),
                    Emit (Interaction (getCurrentTime (seekTo x s))), Emit (Click x)]"
    "actions (on_drag x (toggleInteraction True s)) =
       actions s @ [RendererRenderProgress x, ClearTimeout, SetTimeout (if isPlaying s then 0 else 200),
                    Emit (Interaction (times_number x (getDuration s))), Emit (Drag x)]"
    "debounce (on_drag x (toggleInteraction True s)) = Some (if isPlaying s then 0 else 200, x)"
    by (simp_all add: on_click_def on_drag_def toggleInteraction_def opt_def seekTo_def setTime_def
        emit_def perform_def actions_def getDuration_def getCurrentTime_def isPlaying_def Let_def
        split: option.splits)
  show ?thesis using off disp seq on by simp
qed

section \<open>Properties of the constructor\<close>

lemma fold_registerPlugin:
  "options (fold (\<lambda>p t. snd (registerPlugin p t)) ps s) = options s
   \<and> plugins (fold (\<lambda>p t. snd (registerPlugin p t)) ps s) = plugins s @ ps
   \<and> actions (fold (\<lambda>p t. snd (registerPlugin p t)) ps s) = actions s @ map PluginInit ps"
  by (induction ps arbitrary: s) (simp_all add: registerPlugin_def Let_def actions_def)

lemma initPlugins_fields:
  "options (initPlugins s) = options s
   \<and> (\<exists>ps. plugins (initPlugins s) = plugins s @ ps \<and> actions (initPlugins s) = actions s @ map PluginInit ps)"
proof (cases "opt (options s) Plugins")
  case (JPlugins ps)
  show ?thesis
  proof (cases "ps = []")
    case True
    then show ?thesis by (simp add: initPlugins_def JPlugins)
  next
    case False
    then show ?thesis
      using fold_registerPlugin [of ps s] by (simp add: initPlugins_def JPlugins)
  qed
qed (simp_all add: initPlugins_def)

lemma wired_fields:
  "options (wired pl opts) = defaultOptions ++ opts"
  "actions (wired pl opts) = map PluginInit (plugins (wired pl opts))"
  "events (wired pl opts) = []"
proof -
  let ?s = "initTimerEvents (initRendererEvents (initPlayerEvents
       \<lparr>options = defaultOptions ++ opts, plugins = [], decodedData = None, duration = None,
        subscriptions = [], listeners = [], debounce = None, player = pl, trace = []\<rparr>))"
  have base: "options ?s = defaultOptions ++ opts" "plugins ?s = []" "actions ?s = []"
    by (simp_all add: initTimerEvents_def initRendererEvents_def initPlayerEvents_def subscribe_def
        actions_def)
  have w: "wired pl opts = initPlugins ?s"
    by (simp add: wired_def)
  show "options (wired pl opts) = defaultOptions ++ opts"
    using initPlugins_fields [of ?s] by (simp add: w base)
  show a: "actions (wired pl opts) = map PluginInit (plugins (wired pl opts))"
    using initPlugins_fields [of ?s] by (auto simp: w base)
  show "events (wired pl opts) = []"
    by (simp add: events_def a events_of_map_PluginInit)
qed

lemma constructor_options:
  "opt_url (defaultOptions ++ opts) = opt_url opts"
  "opt_peaks (defaultOptions ++ opts) = opt_peaks opts"
  "opt_duration (defaultOptions ++ opts) = opt_duration opts"
  "opt_media_currentSrc (defaultOptions ++ opts) = opt_media_currentSrc opts"
  "opt_media_src (defaultOptions ++ opts) = opt_media_src opts"
  by (simp_all add: opt_url_def opt_peaks_def opt_duration_def opt_media_currentSrc_def
      opt_media_src_def opt_def map_add_def defaultOptions_def split: option.splits)

lemma load_first_event:
  "\<exists>rest. events (snd (load env url cd dur s)) = events s @ Load url # rest"
proof (cases cd)
  case (Some ch)
  show ?thesis
    unfolding Some events_def actions_def
    by (cases "duration_priority dur (reported_after_setSrc env) (loadedmetadata env)")
      (simp_all add: load_peaks_result events_of_append events_of_redraws)
next
  case None
  show ?thesis
  proof (cases "fetchBlob env url (opt (options s) FetchParams)")
    case (Inl e)
    show ?thesis
      unfolding None events_def actions_def
      by (simp add: load_fetch_failed_result [OF Inl] events_of_append)
  next
    case (Inr bytes)
    show ?thesis
      unfolding None events_def actions_def
      by (cases "duration_priority dur (reported_after_setSrc env) (loadedmetadata env)";
          cases "decode env bytes (opt (options s) SampleRate)")
        (simp_all add: load_fetched_result [OF Inr] events_of_append events_of_redraws)
  qed
qed

lemma constructor_loads:
  assumes "source_url (defaultOptions ++ opts) = Some u"
  shows "new_WaveSurfer env pl opts =
           snd (load env u (opt_peaks opts) (opt_duration opts) (wired pl opts))
         \<and> take 1 (events (new_WaveSurfer env pl opts)) = [Load u]"
proof -
  have eq: "new_WaveSurfer env pl opts =
           snd (load env u (opt_peaks opts) (opt_duration opts) (wired pl opts))"
    using assms by (simp add: new_WaveSurfer_def Let_def wired_fields constructor_options)
  obtain rest where "events (snd (load env u (opt_peaks opts) (opt_duration opts) (wired pl opts)))
      = events (wired pl opts) @ Load u # rest"
    using load_first_event by blast
  then show ?thesis by (simp add: eq wired_fields)
qed

text \<open>
  C9. A url is a non-empty string. When the options carry a url, the constructor ends as
  the load of that url with the options' peaks and duration, started on the wired
  instance; without a url the same holds for the media element's \<open>currentSrc\<close>, and
  without that for its \<open>src\<close>. The first event is then \<open>load\<close> of that url. With no url
  and no media source the constructor stops at the wired instance: no event is emitted and
  the only actions are the plugins' \<open>init\<close>.
\<close>

theorem constructor_autoload:
  "(opt_url opts = Some u \<and> u \<noteq> [] \<longrightarrow>
      new_WaveSurfer env pl opts =
        snd (load env u (opt_peaks opts) (opt_duration opts) (wired pl opts))
      \<and> take 1 (events (new_WaveSurfer env pl opts)) = [Load u])
   \<and> ((opt_url opts = None \<or> opt_url opts = Some [])
        \<and> opt_media_currentSrc opts = Some u \<and> u \<noteq> [] \<longrightarrow>
      new_WaveSurfer env pl opts =
        snd (load env u (opt_peaks opts) (opt_duration opts) (wired pl opts))
      \<and> take 1 (events (new_WaveSurfer env pl opts)) = [Load u])
   \<and> ((opt_url opts = None \<or> opt_url opts = Some [])
        \<and> opt_media_currentSrc opts = Some [] \<and> opt_media_src opts = Some u \<and> u \<noteq> [] \<longrightarrow>
      new_WaveSurfer env pl opts =
        snd (load env u (opt_peaks opts) (opt_duration opts) (wired pl opts))
      \<and> take 1 (events (new_WaveSurfer env pl opts)) = [Load u])
   \<and> ((opt_url opts = None \<or> opt_url opts = Some [])
        \<and> (opt_media_currentSrc opts = None \<or> opt_media_currentSrc opts = Some [])
        \<and> (opt_media_src opts = None \<or> opt_media_src opts = Some []) \<longrightarrow>
      new_WaveSurfer env pl opts = wired pl opts
      \<and> events (new_WaveSurfer env pl opts) = []
      \<and> actions (new_WaveSurfer env pl opts) = map PluginInit (plugins (new_WaveSurfer env pl opts)))"
proof -
  have a: "source_url (defaultOptions ++ opts) = Some u" if "opt_url opts = Some u" "u \<noteq> []"
    using that by (simp add: source_url_def or_string_def constructor_options)
  have b: "source_url (defaultOptions ++ opts) = Some u"
    if "opt_url opts = None \<or> opt_url opts = Some []" "opt_media_currentSrc opts = Some u" "u \<noteq> []"
    using that by (auto simp: source_url_def or_string_def constructor_options)
  have c: "source_url (defaultOptions ++ opts) = Some u"
    if "opt_url opts = None \<or> opt_url opts = Some []" "opt_media_currentSrc opts = Some []"
      "opt_media_src opts = Some u" "u \<noteq> []"
    using that by (auto simp: source_url_def or_string_def constructor_options)
  have d: "source_url (defaultOptions ++ opts) = None"
    if "opt_url opts = None \<or> opt_url opts = Some []"
      "opt_media_currentSrc opts = None \<or> opt_media_currentSrc opts = Some []"
      "opt_media_src opts = None \<or> opt_media_src opts = Some []"
    using that by (auto simp: source_url_def or_string_def constructor_options)
  have none: "new_WaveSurfer env pl opts = wired pl opts
      \<and> events (new_WaveSurfer env pl opts) = []
      \<and> actions (new_WaveSurfer env pl opts) = map PluginInit (plugins (new_WaveSurfer env pl opts))"
    if "source_url (defaultOptions ++ opts) = None"
    using that wired_fields(2) [of pl opts] by (simp add: new_WaveSurfer_def Let_def wired_fields)
  show ?thesis
    using a b c d none constructor_loads [of opts u env pl] by blast
qed

text \<open>
  The theorem at sample inputs: a url with peaks and duration, a media element with a
  \<open>currentSrc\<close>, one with a \<open>src\<close> only, and no options at all.
\<close>

theorem constructor_autoload_witness:
  "new_WaveSurfer sample_env quiet_player
      [Url \<mapsto> JString ''a.mp3'', Peaks \<mapsto> JPeaks [[0]], Duration \<mapsto> JNumber (Fin 3)] =
     snd (load sample_env ''a.mp3'' (Some [[0]]) (Some (Fin 3))
            (wired quiet_player [Url \<mapsto> JString ''a.mp3'', Peaks \<mapsto> JPeaks [[0]], Duration \<mapsto> JNumber (Fin 3)]))
   \<and> take 1 (events (new_WaveSurfer sample_env quiet_player
      [Url \<mapsto> JString ''a.mp3'', Peaks \<mapsto> JPeaks [[0]], Duration \<mapsto> JNumber (Fin 3)])) = [Load ''a.mp3'']
   \<and> take 1 (events (new_WaveSurfer sample_env quiet_player
      [Media \<mapsto> JMedia \<lparr>currentSrc = ''b.ogg'', src = ''b.ogg''\<rparr>])) = [Load ''b.ogg'']
   \<and> take 1 (events (new_WaveSurfer sample_env quiet_player
      [Media \<mapsto> JMedia \<lparr>currentSrc = [], src = ''c.wav''\<rparr>])) = [Load ''c.wav'']
   \<and> new_WaveSurfer sample_env quiet_player Map.empty = blank
   \<and> events (new_WaveSurfer sample_env quiet_player Map.empty) = []"
proof -
  let ?o1 = "[Url \<mapsto> JString ''a.mp3'', Peaks \<mapsto> JPeaks [[0]], Duration \<mapsto> JNumber (Fin 3)]"
  let ?o2 = "[Media \<mapsto> JMedia \<lparr>currentSrc = ''b.ogg'', src = ''b.ogg''\<rparr>]"
  let ?o3 = "[Media \<mapsto> JMedia \<lparr>currentSrc = [], src = ''c.wav''\<rparr>]"
  have h1: "opt_url ?o1 = Some ''a.mp3''" "opt_peaks ?o1 = Some [[0]]" "opt_duration ?o1 = Some (Fin 3)"
    by (simp_all add: opt_url_def opt_peaks_def opt_duration_def opt_def)
  have h2: "opt_url ?o2 = None" "opt_media_currentSrc ?o2 = Some ''b.ogg''"
    by (simp_all add: opt_url_def opt_media_currentSrc_def opt_def)
  have h3: "opt_url ?o3 = None" "opt_media_currentSrc ?o3 = Some []" "opt_media_src ?o3 = Some ''c.wav''"
    by (simp_all add: opt_url_def opt_media_currentSrc_def opt_media_src_def opt_def)
  have h4: "opt_url Map.empty = None" "opt_media_currentSrc Map.empty = None" "opt_media_src Map.empty = None"
    by (simp_all add: opt_url_def opt_media_currentSrc_def opt_media_src_def opt_def)
  have p1: "opt_url ?o1 = Some ''a.mp3'' \<and> ''a.mp3'' \<noteq> []"
    using h1 by simp
  have "new_WaveSurfer sample_env quiet_player ?o1 =
       snd (load sample_env ''a.mp3'' (opt_peaks ?o1) (opt_duration ?o1) (wired quiet_player ?o1))
     \<and> take 1 (events (new_WaveSurfer sample_env quiet_player ?o1)) = [Load ''a.mp3'']"
    using constructor_autoload [where opts = ?o1 and u = "''a.mp3''" and env = sample_env
        and pl = quiet_player] p1
    by blast
  note c1 = this [unfolded h1]
  have p2: "(opt_url ?o2 = None \<or> opt_url ?o2 = Some [])
      \<and> opt_media_currentSrc ?o2 = Some ''b.ogg'' \<and> ''b.ogg'' \<noteq> []"
    using h2 by simp
  have c2: "take 1 (events (new_WaveSurfer sample_env quiet_player ?o2)) = [Load ''b.ogg'']"
    using constructor_autoload [where opts = ?o2 and u = "''b.ogg''" and env = sample_env
        and pl = quiet_player] p2
    by blast
  have p3: "(opt_url ?o3 = None \<or> opt_url ?o3 = Some [])
      \<and> opt_media_currentSrc ?o3 = Some [] \<and> opt_media_src ?o3 = Some ''c.wav'' \<and> ''c.wav'' \<noteq> []"
    using h3 by simp
  have c3: "take 1 (events (new_WaveSurfer sample_env quiet_player ?o3)) = [Load ''c.wav'']"
    using constructor_autoload [where opts = ?o3 and u = "''c.wav''" and env = sample_env
        and pl = quiet_player] p3
    by blast
  have p4: "(opt_url Map.empty = None \<or> opt_url Map.empty = Some [])
      \<and> (opt_media_currentSrc Map.empty = None \<or> opt_media_currentSrc Map.empty = Some [])
      \<and> (opt_media_src Map.empty = None \<or> opt_media_src Map.empty = Some [])"
    using h4 by simp
  have "new_WaveSurfer sample_env quiet_player Map.empty = wired quiet_player Map.empty
     \<and> events (new_WaveSurfer sample_env quiet_player Map.empty) = []"
    using constructor_autoload [where opts = Map.empty and u = "[]" and env = sample_env
        and pl = quiet_player] p4
    by blast
  note c4 = this [folded blank_def]
  show ?thesis using c1 c2 c3 c4 by blast
qed

end
